theory Spec2Isabelle
  imports Main "HOL-Library.Option_ord"
begin

section \<open>The three-layer product pipeline of scripts/ingestion.py\<close>

text \<open>
  The script loads every CSV file of the landing directory into the table
  \<open>bronze_produtos\<close>, keeps the most recent row of every product in
  \<open>silver_produtos\<close>, and projects that table into \<open>gold_produtos_fat\<close> and
  \<open>gold_produtos_dim\<close>. The model follows the script statement by statement. The database
  is a record of four optional tables (\<open>None\<close>: the table does not exist), a table is the
  list of its rows, and an exception is a value: the ones the script catches and logs per file
  become entries of the error log, the ones it re-raises end the run with \<open>Aborted\<close>.
  Failures of the storage itself (a full disk, a lost connection) are not modelled.
\<close>

subsection \<open>Cells, frames and tables\<close>

text \<open>
  A cell is the text of a value as the engine keeps it in a VARCHAR column; \<open>None\<close> is the
  missing value (NULL in the engine, None or NaN in a data frame).
\<close>

type_synonym cell = "string option"

text \<open>A pandas data frame: its column names, and its rows, one cell per column.\<close>

record frame =
  columns :: "string list"
  rows :: "cell list list"

text \<open>One row of \<open>bronze_produtos\<close> (lines 50 to 60); \<open>'t\<close> is the engine's TIMESTAMP.\<close>

record 't bronze_row =
  NATBR :: cell
  MAKTX :: cell
  WERKS :: cell
  MAINS :: cell
  LABST :: cell
  ingest_time :: "'t option"
  file_name :: cell

text \<open>
  One row of \<open>silver_produtos\<close> (lines 154 to 163); \<open>'p\<close> is the 32-bit float of the price.
  The columns \<open>id\<close> and \<open>supplier\<close> come from pandas int64 columns, which hold no missing
  value.
\<close>

record ('t, 'p) silver_row =
  s_id :: int
  s_prod_name :: cell
  s_id_category :: cell
  s_supplier :: int
  s_price :: 'p
  s_ingest_time :: 't

text \<open>The rows of \<open>gold_produtos_fat\<close> (lines 189 to 195) and \<open>gold_produtos_dim\<close> (214 to 220).\<close>

record 'p fat_row =
  f_id :: int
  f_prod_name :: cell
  f_price :: 'p

record dim_row =
  d_id :: int
  d_id_category :: cell
  d_supplier :: int

datatype failure =
  Listdir_failed | Silver_query_failed | Astype_failed | Silver_insert_failed
  | Fact_failed | Dim_failed

datatype status = Success | Aborted failure

text \<open>What \<open>logger.error\<close> records: a file that was skipped, or the exception about to be raised.\<close>

datatype incident = File_skipped string | Fatal failure

record ('t, 'p) state =
  bronze_produtos :: "'t bronze_row list option"
  silver_produtos :: "('t, 'p) silver_row list option"
  gold_produtos_fat :: "'p fat_row list option"
  gold_produtos_dim :: "dim_row list option"
  errors :: "incident list"

subsection \<open>The libraries the script calls\<close>

text \<open>
  The script leaves four decisions to DuckDB and pandas. They are parameters of the model:
  \<^item> \<open>cast_timestamp\<close>: the engine's cast of a text to TIMESTAMP (\<open>None\<close>: conversion error);
  \<^item> \<open>astype_int64\<close>: what \<open>astype('int64')\<close> makes of a cell (\<open>None\<close>: it raises);
  \<^item> \<open>astype_float32\<close>: what \<open>astype('float32')\<close> makes of a cell;
  \<^item> \<open>peer_choice\<close>: the query of lines 103 to 113 orders a partition by \<open>ingest_time\<close> only,
    so among the rows that share the greatest timestamp the engine is free to number any of them
    first. The number \<open>peer_choice ps\<close>, taken modulo the number of such rows, says which one
    it takes.
\<close>

record ('t, 'p) lib =
  cast_timestamp :: "string \<Rightarrow> 't option"
  astype_int64 :: "cell \<Rightarrow> int option"
  astype_float32 :: "cell \<Rightarrow> 'p option"
  peer_choice :: "'t bronze_row list \<Rightarrow> nat"

text \<open>
  A statement over many rows (an INSERT, an \<open>astype\<close>) converts every row or fails as a whole.
\<close>

fun convert_all :: "('a \<Rightarrow> 'b option) \<Rightarrow> 'a list \<Rightarrow> 'b list option" where
  "convert_all f [] = Some []"
| "convert_all f (x # xs) =
     (case f x of
        None \<Rightarrow> None
      | Some y \<Rightarrow> (case convert_all f xs of None \<Rightarrow> None | Some ys \<Rightarrow> Some (y # ys)))"

subsection \<open>Bronze: lines 43 to 89\<close>

definition EXT :: string where
  "EXT = ''.csv''"

definition endswith :: "string \<Rightarrow> string \<Rightarrow> bool" where
  "endswith s ext = (drop (length s - length ext) s = ext)"

text \<open>
  An entry of the landing directory: its name, and what \<open>pd.read_csv\<close> returns for it
  (\<open>None\<close>: it raises).
\<close>

record entry =
  fname :: string
  read_csv :: "frame option"

fun position :: "string \<Rightarrow> string list \<Rightarrow> nat" where
  "position n [] = 0"
| "position n (c # cs) = (if c = n then 0 else Suc (position n cs))"

text \<open>
  \<open>df[name] = v\<close> with a scalar \<open>v\<close>: an existing column of that name is overwritten where it
  stands, otherwise the column is added at the right.
\<close>

definition set_column :: "string \<Rightarrow> cell \<Rightarrow> frame \<Rightarrow> frame" where
  "set_column name v df =
     (if name \<in> set (columns df)
      then df\<lparr>rows := map (\<lambda>r. r[position name (columns df) := v]) (rows df)\<rparr>
      else df\<lparr>columns := columns df @ [name], rows := map (\<lambda>r. r @ [v]) (rows df)\<rparr>)"

text \<open>
  \<open>INSERT INTO bronze_produtos SELECT * FROM df\<close> matches the columns of the frame to those
  of the table by position, not by name: the statement needs seven columns, and the sixth is
  cast to TIMESTAMP.
\<close>

fun bronze_of_cells :: "('t, 'p) lib \<Rightarrow> cell list \<Rightarrow> 't bronze_row option" where
  "bronze_of_cells L [a, b, c, d, e, t, f] =
     (case t of
        None \<Rightarrow>
          Some \<lparr>NATBR = a, MAKTX = b, WERKS = c, MAINS = d, LABST = e,
                ingest_time = None, file_name = f\<rparr>
      | Some txt \<Rightarrow>
          (case cast_timestamp L txt of
             None \<Rightarrow> None
           | Some ts \<Rightarrow>
               Some \<lparr>NATBR = a, MAKTX = b, WERKS = c, MAINS = d, LABST = e,
                     ingest_time = Some ts, file_name = f\<rparr>))"
| "bronze_of_cells L _ = None"

definition insert_bronze :: "('t, 'p) lib \<Rightarrow> frame \<Rightarrow> 't bronze_row list option" where
  "insert_bronze L df =
     (if length (columns df) = 7 then convert_all (bronze_of_cells L) (rows df) else None)"

text \<open>Lines 77 to 79: the frame of a file with the two metadata columns set.\<close>

definition with_metadata :: "string \<Rightarrow> string \<Rightarrow> frame \<Rightarrow> frame" where
  "with_metadata now file df =
     set_column ''file_name'' (Some file) (set_column ''ingest_time'' (Some now) df)"

text \<open>
  The rows one file adds to the table, or \<open>None\<close> when reading or inserting raises.
\<close>

definition file_rows :: "('t, 'p) lib \<Rightarrow> string \<Rightarrow> entry \<Rightarrow> 't bronze_row list option" where
  "file_rows L now f =
     (case read_csv f of
        None \<Rightarrow> None
      | Some df \<Rightarrow> insert_bronze L (with_metadata now (fname f) df))"

definition log_error :: "incident \<Rightarrow> ('t, 'p) state \<Rightarrow> ('t, 'p) state" where
  "log_error e st = st\<lparr>errors := errors st @ [e]\<rparr>"

text \<open>
  The body of the loop (lines 72 to 85) for one file; \<open>now\<close> is the text that
  \<open>datetime.now().strftime\<close> returns on line 74. Every exception is caught and logged.
\<close>

definition ingest_file ::
  "('t, 'p) lib \<Rightarrow> string \<Rightarrow> entry \<Rightarrow> ('t, 'p) state \<Rightarrow> ('t, 'p) state" where
  "ingest_file L now f st =
     (case file_rows L now f of
        None \<Rightarrow> log_error (File_skipped (fname f)) st
      | Some new \<Rightarrow>
          (case bronze_produtos st of
             None \<Rightarrow> log_error (File_skipped (fname f)) st
           | Some old \<Rightarrow> st\<lparr>bronze_produtos := Some (old @ new)\<rparr>))"

text \<open>
  The loop of line 71. The clock is read once per file: \<open>clock i\<close> is the text of the
  \<open>i\<close>-th reading of the run.
\<close>

fun ingest_files ::
  "('t, 'p) lib \<Rightarrow> (nat \<Rightarrow> string) \<Rightarrow> nat \<Rightarrow> entry list \<Rightarrow> ('t, 'p) state \<Rightarrow> ('t, 'p) state"
  where
  "ingest_files L clock i [] st = st"
| "ingest_files L clock i (f # fs) st =
     ingest_files L clock (Suc i) fs (ingest_file L (clock i) f st)"

subsection \<open>Silver: lines 97 to 167\<close>

definition CUTOFF :: string where
  "CUTOFF = ''2025-01-01 00:00:00''"

text \<open>
  \<open>WHERE ingest_time >= '2025-01-01 00:00:00'\<close>: a row without a timestamp does not pass.
  In the order of \<open>'t option\<close> the missing value is below every timestamp.
\<close>

definition recent :: "'t::linorder \<Rightarrow> 't bronze_row list \<Rightarrow> 't bronze_row list" where
  "recent c b = filter (\<lambda>r. Some c \<le> ingest_time r) b"

text \<open>\<open>PARTITION BY NATBR\<close>: the rows of one key; the missing keys form a partition too.\<close>

definition partition_of :: "cell \<Rightarrow> 't bronze_row list \<Rightarrow> 't bronze_row list" where
  "partition_of k b = filter (\<lambda>r. NATBR r = k) b"

text \<open>
  \<open>ORDER BY ingest_time DESC\<close>: the rows of a partition that no row of it precedes. Row
  number 1 is one of them.
\<close>

definition peers :: "'t::linorder bronze_row list \<Rightarrow> 't bronze_row list" where
  "peers part = filter (\<lambda>r. list_all (\<lambda>x. ingest_time x \<le> ingest_time r) part) part"

definition rn1 :: "('t::linorder, 'p) lib \<Rightarrow> 't bronze_row list \<Rightarrow> 't bronze_row list" where
  "rn1 L part =
     (case peers part of
        [] \<Rightarrow> []
      | p # ps \<Rightarrow> [(p # ps) ! (peer_choice L (p # ps) mod length (p # ps))])"

text \<open>
  The query of lines 103 to 113 on the rows that passed the filter. The query has no final
  ORDER BY: the order in which the engine returns the selected rows is its own. The model lists
  them key by key, the keys in the order of the raw table, and the properties below that speak
  of single rows, of counts or of sets of rows do not depend on that order.
\<close>

definition ranked :: "('t::linorder, 'p) lib \<Rightarrow> 't bronze_row list \<Rightarrow> 't bronze_row list" where
  "ranked L b = concat (map (\<lambda>k. rn1 L (partition_of k b)) (remdups (map NATBR b)))"

text \<open>
  Lines 124 to 143 on one row: the bookkeeping columns are dropped, the others renamed and
  cast in the order of the dictionary; casting to \<open>'string'\<close> keeps the cell.
\<close>

definition astype ::
  "('t, 'p) lib \<Rightarrow> 't bronze_row \<Rightarrow> (int \<times> cell \<times> cell \<times> int \<times> 'p) option" where
  "astype L r =
     (case astype_int64 L (NATBR r) of
        None \<Rightarrow> None
      | Some i \<Rightarrow>
          (case astype_int64 L (MAINS r) of
             None \<Rightarrow> None
           | Some s \<Rightarrow>
               (case astype_float32 L (LABST r) of
                  None \<Rightarrow> None
                | Some p \<Rightarrow> Some (i, MAKTX r, WERKS r, s, p))))"

text \<open>
  Lines 149 and 166 on one row: the processing time is a text, which the INSERT casts to the
  TIMESTAMP column.
\<close>

definition silver_of ::
  "('t, 'p) lib \<Rightarrow> string \<Rightarrow> int \<times> cell \<times> cell \<times> int \<times> 'p \<Rightarrow> ('t, 'p) silver_row option" where
  "silver_of L now x =
     (case x of (i, n, c, s, p) \<Rightarrow>
        (case cast_timestamp L now of
           None \<Rightarrow> None
         | Some ts \<Rightarrow>
             Some \<lparr>s_id = i, s_prod_name = n, s_id_category = c, s_supplier = s,
                   s_price = p, s_ingest_time = ts\<rparr>))"

definition fatal :: "failure \<Rightarrow> ('t, 'p) state \<Rightarrow> status \<times> ('t, 'p) state" where
  "fatal e st = (Aborted e, log_error (Fatal e) st)"

text \<open>
  The whole stage; \<open>now\<close> is the clock reading of line 149. The query fails when the table is
  missing or the engine cannot read the literal of the filter. A failed \<open>astype\<close> is logged and
  raised before the table is touched (lines 136 to 146); the DROP, CREATE and INSERT of lines
  152 to 166 are not guarded, so a failed INSERT raises after the table was recreated empty.
\<close>

definition silver_stage ::
  "('t::linorder, 'p) lib \<Rightarrow> string \<Rightarrow> ('t, 'p) state \<Rightarrow> status \<times> ('t, 'p) state" where
  "silver_stage L now st =
     (case bronze_produtos st of
        None \<Rightarrow> fatal Silver_query_failed st
      | Some b \<Rightarrow>
          (case cast_timestamp L CUTOFF of
             None \<Rightarrow> fatal Silver_query_failed st
           | Some c \<Rightarrow>
               (case convert_all (astype L) (ranked L (recent c b)) of
                  None \<Rightarrow> fatal Astype_failed st
                | Some df \<Rightarrow>
                    (case convert_all (silver_of L now) df of
                       None \<Rightarrow> (Aborted Silver_insert_failed, st\<lparr>silver_produtos := Some []\<rparr>)
                     | Some new \<Rightarrow> (Success, st\<lparr>silver_produtos := Some new\<rparr>)))))"

subsection \<open>Gold: lines 176 to 227\<close>

definition fat_of :: "('t, 'p) silver_row \<Rightarrow> 'p fat_row" where
  "fat_of r = \<lparr>f_id = s_id r, f_prod_name = s_prod_name r, f_price = s_price r\<rparr>"

definition dim_of :: "('t, 'p) silver_row \<Rightarrow> dim_row" where
  "dim_of r = \<lparr>d_id = s_id r, d_id_category = s_id_category r, d_supplier = s_supplier r\<rparr>"

text \<open>
  \<open>SELECT DISTINCT\<close> is \<open>remdups\<close> of the projected rows. Each query fails when
  \<open>silver_produtos\<close> is missing; the exception is logged and raised.
\<close>

definition gold_stage :: "('t, 'p) state \<Rightarrow> status \<times> ('t, 'p) state" where
  "gold_stage st =
     (case silver_produtos st of
        None \<Rightarrow> fatal Fact_failed st
      | Some s \<Rightarrow>
          (let st1 = st\<lparr>gold_produtos_fat := Some (remdups (map fat_of s))\<rparr>
           in case silver_produtos st1 of
                None \<Rightarrow> fatal Dim_failed st1
              | Some s' \<Rightarrow> (Success, st1\<lparr>gold_produtos_dim := Some (remdups (map dim_of s'))\<rparr>)))"

subsection \<open>The run\<close>

text \<open>
  Lines 47 to 60 drop and recreate \<open>bronze_produtos\<close> before anything else. \<open>listing\<close> is
  what \<open>os.listdir\<close> returns (\<open>None\<close>: it raises, line 68), with every entry's frame. The
  clock is read once per CSV file and once more on line 149. After the gold stage the script
  only counts, prints and closes the connection (lines 229 to 288).
\<close>

definition csv_files :: "entry list \<Rightarrow> entry list" where
  "csv_files es = filter (\<lambda>f. endswith (fname f) EXT) es"

definition pipeline ::
  "('t::linorder, 'p) lib \<Rightarrow> (nat \<Rightarrow> string) \<Rightarrow> entry list option \<Rightarrow> ('t, 'p) state
     \<Rightarrow> status \<times> ('t, 'p) state" where
  "pipeline L clock listing st =
     (let st0 = st\<lparr>bronze_produtos := Some []\<rparr>
      in case listing of
           None \<Rightarrow> fatal Listdir_failed st0
         | Some es \<Rightarrow>
             (let st1 = ingest_files L clock 0 (csv_files es) st0
              in case silver_stage L (clock (length (csv_files es))) st1 of
                   (Success, st2) \<Rightarrow> gold_stage st2
                 | (Aborted e, st2) \<Rightarrow> (Aborted e, st2)))"

text \<open>Stages 4.2 and 4.3 alone, on the tables as they stand.\<close>

definition transform ::
  "('t::linorder, 'p) lib \<Rightarrow> string \<Rightarrow> ('t, 'p) state \<Rightarrow> status \<times> ('t, 'p) state" where
  "transform L now st =
     (case silver_stage L now st of
        (Success, st') \<Rightarrow> gold_stage st'
      | (Aborted e, st') \<Rightarrow> (Aborted e, st'))"

subsection \<open>What the loop leaves behind\<close>

text \<open>
  Two notions derived from the loop of line 71, used to state what it does: the rows the files
  of a list add to the raw table, file by file, and the entries they add to the error log. The
  file at position \<open>j\<close> of the list is read at clock reading \<open>i + j\<close>. The lemma
  \<open>ingest_files_result\<close> below ties both to \<open>ingest_files\<close>.
\<close>

fun loaded :: "('t, 'p) lib \<Rightarrow> (nat \<Rightarrow> string) \<Rightarrow> nat \<Rightarrow> entry list \<Rightarrow> 't bronze_row list" where
  "loaded L clock i [] = []"
| "loaded L clock i (f # fs) =
     (case file_rows L (clock i) f of None \<Rightarrow> [] | Some new \<Rightarrow> new) @ loaded L clock (Suc i) fs"

fun skipped :: "('t, 'p) lib \<Rightarrow> (nat \<Rightarrow> string) \<Rightarrow> nat \<Rightarrow> entry list \<Rightarrow> incident list" where
  "skipped L clock i [] = []"
| "skipped L clock i (f # fs) =
     (case file_rows L (clock i) f of None \<Rightarrow> [File_skipped (fname f)] | Some new \<Rightarrow> [])
       @ skipped L clock (Suc i) fs"


subsection \<open>An instance of the libraries, for running the model\<close>

text \<open>
  Python's \<open>int(s)\<close> on an ASCII text, which is how \<open>astype('int64')\<close> reads the texts of an
  object column: white space around the number is ignored, a sign may lead, and single
  underscores may stand between digits. So \<open>int('01')\<close> and \<open>int('1')\<close> are both 1.
\<close>

fun place :: "char \<Rightarrow> string \<Rightarrow> nat option" where
  "place c [] = None"
| "place c (d # ds) = (if c = d then Some 0 else map_option Suc (place c ds))"

definition digit :: "char \<Rightarrow> nat option" where
  "digit c = place c ''0123456789''"

text \<open>\<open>after_digit\<close> says that the character before was a digit: only there may an underscore stand.\<close>

fun decimal :: "nat \<Rightarrow> bool \<Rightarrow> string \<Rightarrow> nat option" where
  "decimal acc after_digit [] = (if after_digit then Some acc else None)"
| "decimal acc after_digit (c # cs) =
     (case digit c of
        Some d \<Rightarrow> decimal (acc * 10 + d) True cs
      | None \<Rightarrow> (if c = CHR ''_'' \<and> after_digit then decimal acc False cs else None))"

definition is_space :: "char \<Rightarrow> bool" where
  "is_space c = (c = CHR '' '' \<or> c = CHR 0x09 \<or> c = CHR 0x0A \<or> c = CHR 0x0B
     \<or> c = CHR 0x0C \<or> c = CHR 0x0D)"

definition strip :: "string \<Rightarrow> string" where
  "strip s = rev (dropWhile is_space (rev (dropWhile is_space s)))"

definition py_int :: "string \<Rightarrow> int option" where
  "py_int s =
     (case strip s of
        [] \<Rightarrow> None
      | c # cs \<Rightarrow>
          (if c = CHR ''-'' then map_option (\<lambda>n. - int n) (decimal 0 False cs)
           else if c = CHR ''+'' then map_option int (decimal 0 False cs)
           else map_option int (decimal 0 False (c # cs))))"

text \<open>The cast to int64 raises on a missing value and on a number outside 64 bits.\<close>

definition py_int64 :: "cell \<Rightarrow> int option" where
  "py_int64 c =
     (case c of
        None \<Rightarrow> None
      | Some s \<Rightarrow>
          (case py_int s of
             None \<Rightarrow> None
           | Some n \<Rightarrow> (if - (2 ^ 63) \<le> n \<and> n < 2 ^ 63 then Some n else None)))"

text \<open>
  The price, for the tables of the examples only: a whole number of magnitude up to \<open>2 ^ 24\<close>
  is a 32-bit float exactly, and a missing value becomes NaN (\<open>None\<close>). Every other text is
  outside this instance, which declines it.
\<close>

definition whole_float32 :: "cell \<Rightarrow> int option option" where
  "whole_float32 c =
     (case c of
        None \<Rightarrow> Some None
      | Some s \<Rightarrow>
          (case py_int s of
             None \<Rightarrow> None
           | Some n \<Rightarrow> (if - (2 ^ 24) \<le> n \<and> n \<le> 2 ^ 24 then Some (Some n) else None)))"

text \<open>
  A timestamp, for texts of the form \<open>strftime('%Y-%m-%d %H:%M:%S')\<close> writes: the number
  \<open>YYYYMMDDhhmmss\<close>, whose order is the order of time. Texts of another form are outside this
  instance.
\<close>

definition number :: "string \<Rightarrow> nat option" where
  "number s = (if list_all (\<lambda>c. digit c \<noteq> None) s then decimal 0 False s else None)"

definition days_in_month :: "nat \<Rightarrow> nat \<Rightarrow> nat" where
  "days_in_month y m =
     (if m = 2 then (if y mod 4 = 0 \<and> (y mod 100 \<noteq> 0 \<or> y mod 400 = 0) then 29 else 28)
      else if m = 4 \<or> m = 6 \<or> m = 9 \<or> m = 11 then 30 else 31)"

definition iso_timestamp :: "string \<Rightarrow> nat option" where
  "iso_timestamp s =
     (if length s = 19 \<and> s ! 4 = CHR ''-'' \<and> s ! 7 = CHR ''-'' \<and> s ! 10 = CHR '' ''
         \<and> s ! 13 = CHR '':'' \<and> s ! 16 = CHR '':''
      then
        (case (number (take 4 s), number (take 2 (drop 5 s)), number (take 2 (drop 8 s)),
               number (take 2 (drop 11 s)), number (take 2 (drop 14 s)),
               number (take 2 (drop 17 s))) of
           (Some y, Some m, Some d, Some h, Some mi, Some se) \<Rightarrow>
             (if 1 \<le> m \<and> m \<le> 12 \<and> 1 \<le> d \<and> d \<le> days_in_month y m
                 \<and> h < 24 \<and> mi < 60 \<and> se < 60
              then Some (((((y * 100 + m) * 100 + d) * 100 + h) * 100 + mi) * 100 + se)
              else None)
         | _ \<Rightarrow> None)
      else None)"

text \<open>The instance; the engine's choice among tied rows stays a parameter.\<close>

definition reference :: "(nat bronze_row list \<Rightarrow> nat) \<Rightarrow> (nat, int option) lib" where
  "reference choice =
     \<lparr>cast_timestamp = iso_timestamp, astype_int64 = py_int64,
      astype_float32 = whole_float32, peer_choice = choice\<rparr>"

definition empty_db :: "(nat, int option) state" where
  "empty_db =
     \<lparr>bronze_produtos = None, silver_produtos = None, gold_produtos_fat = None,
      gold_produtos_dim = None, errors = []\<rparr>"

subsection \<open>Tables and files of the examples\<close>

text \<open>
  Two engines that differ only in which of several tied rows they number first.
\<close>

definition first_peer :: "nat bronze_row list \<Rightarrow> nat" where "first_peer ps = 0"

definition last_peer :: "nat bronze_row list \<Rightarrow> nat" where "last_peer ps = length ps - 1"

text \<open>
  The clock of a run that takes less than a second, and of a run on the last second of 2024.
\<close>

definition at_noon :: "nat \<Rightarrow> string" where
  "at_noon i = ''2025-06-01 12:00:00''"

definition last_year :: "nat \<Rightarrow> string" where
  "last_year i = ''2024-12-31 23:59:59''"

text \<open>
  Files of a landing directory: one that fits the schema, one that lacks the price column,
  one that is no CSV file, one with five columns under other names, and one whose header
  already has a column \<open>ingest_time\<close>, in first place.
\<close>

definition five :: "string list" where
  "five = [''NATBR'', ''MAKTX'', ''WERKS'', ''MAINS'', ''LABST'']"

definition good_csv :: entry where
  "good_csv = \<lparr>fname = ''b.csv'', read_csv = Some \<lparr>columns = five, rows =
     [[Some ''1'', Some ''Mouse'', Some ''C1'', Some ''7'', Some ''10''],
      [Some ''2'', Some ''Cable'', Some ''C1'', Some ''7'', Some ''5'']]\<rparr>\<rparr>"

definition missing_price_csv :: entry where
  "missing_price_csv = \<lparr>fname = ''a.csv'', read_csv = Some
     \<lparr>columns = [''NATBR'', ''MAKTX'', ''WERKS'', ''MAINS''],
      rows = [[Some ''3'', Some ''Screen'', Some ''C2'', Some ''8'']]\<rparr>\<rparr>"

definition readme :: entry where
  "readme = \<lparr>fname = ''README.md'', read_csv = None\<rparr>"

definition renamed_csv :: entry where
  "renamed_csv = \<lparr>fname = ''c.csv'', read_csv = Some
     \<lparr>columns = [''id'', ''name'', ''category'', ''supplier'', ''price''],
      rows = [[Some ''4'', Some ''Lamp'', Some ''C3'', Some ''9'', Some ''30'']]\<rparr>\<rparr>"

definition shifted_csv :: entry where
  "shifted_csv = \<lparr>fname = ''d.csv'', read_csv = Some
     \<lparr>columns = [''ingest_time'', ''MAKTX'', ''WERKS'', ''MAINS'', ''LABST'', ''seen''],
      rows = [[Some ''5'', Some ''Desk'', Some ''C4'', Some ''9'', Some ''90'', Some ''2025-03-01 10:00:00''],
              [Some ''5'', Some ''Desk'', Some ''C4'', Some ''9'', Some ''95'', Some ''2025-03-02 10:00:00'']]\<rparr>\<rparr>"

text \<open>
  A file that writes the key 1 in two ways. One file can bring these cells: the cell
  \<open>2_0\<close> is no number to \<open>pd.read_csv\<close>, so the column stays a column of texts and
  \<open>01\<close> keeps its zero; \<open>int('2_0')\<close> is 20.
\<close>

definition spellings_csv :: entry where
  "spellings_csv = \<lparr>fname = ''e.csv'', read_csv = Some \<lparr>columns = five, rows =
     [[Some ''1'', Some ''Mouse'', Some ''C1'', Some ''7'', Some ''10''],
      [Some ''01'', Some ''Keyboard'', Some ''C2'', Some ''8'', Some ''20''],
      [Some ''2_0'', Some ''Cable'', Some ''C3'', Some ''9'', Some ''5'']]\<rparr>\<rparr>"

text \<open>
  Databases: a current-state table of two products; the raw table a run of the day before
  left; a raw table with two versions of product 1; one where both versions carry the same
  timestamp; and one whose only row has a key that is no number.
\<close>

definition shop :: "(nat, int option) state" where
  "shop = empty_db\<lparr>silver_produtos := Some
     [\<lparr>s_id = 1, s_prod_name = Some ''Mouse'', s_id_category = Some ''C1'', s_supplier = 7,
       s_price = Some 10, s_ingest_time = 20250601120000\<rparr>,
      \<lparr>s_id = 2, s_prod_name = Some ''Cable'', s_id_category = Some ''C1'', s_supplier = 7,
       s_price = Some 5, s_ingest_time = 20250601120000\<rparr>]\<rparr>"

definition yesterday :: "(nat, int option) state" where
  "yesterday = empty_db\<lparr>bronze_produtos := Some
     [\<lparr>NATBR = Some ''1'', MAKTX = Some ''Mouse'', WERKS = Some ''C1'', MAINS = Some ''7'',
       LABST = Some ''10'', ingest_time = Some 20250531120000, file_name = Some ''b.csv''\<rparr>]\<rparr>"

definition two_days :: "(nat, int option) state" where
  "two_days = empty_db\<lparr>bronze_produtos := Some
     [\<lparr>NATBR = Some ''1'', MAKTX = Some ''Mouse'', WERKS = Some ''C1'', MAINS = Some ''7'',
       LABST = Some ''10'', ingest_time = Some 20250531120000, file_name = Some ''a.csv''\<rparr>,
      \<lparr>NATBR = Some ''1'', MAKTX = Some ''Mouse'', WERKS = Some ''C1'', MAINS = Some ''7'',
       LABST = Some ''12'', ingest_time = Some 20250601120000, file_name = Some ''b.csv''\<rparr>,
      \<lparr>NATBR = Some ''2'', MAKTX = Some ''Cable'', WERKS = Some ''C1'', MAINS = Some ''7'',
       LABST = Some ''5'', ingest_time = Some 20250601120000, file_name = Some ''b.csv''\<rparr>]\<rparr>"

definition tie :: "(nat, int option) state" where
  "tie = empty_db\<lparr>bronze_produtos := Some
     [\<lparr>NATBR = Some ''1'', MAKTX = Some ''Mouse'', WERKS = Some ''C1'', MAINS = Some ''7'',
       LABST = Some ''10'', ingest_time = Some 20250601120000, file_name = Some ''a.csv''\<rparr>,
      \<lparr>NATBR = Some ''1'', MAKTX = Some ''Trackball'', WERKS = Some ''C1'', MAINS = Some ''7'',
       LABST = Some ''12'', ingest_time = Some 20250601120000, file_name = Some ''b.csv''\<rparr>]\<rparr>"

definition bad_key :: "(nat, int option) state" where
  "bad_key = shop\<lparr>bronze_produtos := Some
     [\<lparr>NATBR = Some ''abc'', MAKTX = Some ''Mouse'', WERKS = Some ''C1'', MAINS = Some ''7'',
       LABST = Some ''10'', ingest_time = Some 20250601120000, file_name = Some ''a.csv''\<rparr>]\<rparr>"

text \<open>
  A file of the landing directory that brings such a key.
\<close>

definition bad_key_csv :: entry where
  "bad_key_csv = \<lparr>fname = ''f.csv'', read_csv = Some \<lparr>columns = five, rows =
     [[Some ''abc'', Some ''Mouse'', Some ''C1'', Some ''7'', Some ''10'']]\<rparr>\<rparr>"

text \<open>
  A current-state table in which two rows agree on id, name and price and differ in category
  and supplier.
\<close>

definition catalogue :: "(nat, int option) state" where
  "catalogue = empty_db\<lparr>silver_produtos := Some
     [\<lparr>s_id = 1, s_prod_name = Some ''Mouse'', s_id_category = Some ''C1'', s_supplier = 7,
       s_price = Some 10, s_ingest_time = 20250601120000\<rparr>,
      \<lparr>s_id = 1, s_prod_name = Some ''Mouse'', s_id_category = Some ''C2'', s_supplier = 8,
       s_price = Some 10, s_ingest_time = 20250601120000\<rparr>,
      \<lparr>s_id = 2, s_prod_name = Some ''Cable'', s_id_category = Some ''C1'', s_supplier = 7,
       s_price = Some 5, s_ingest_time = 20250601120000\<rparr>]\<rparr>"

section \<open>Properties\<close>

lemmas lib_eval =
  reference_def iso_timestamp_def number_def digit_def days_in_month_def py_int64_def
  py_int_def strip_def is_space_def whole_float32_def first_peer_def last_peer_def

lemmas bronze_eval =
  pipeline_def csv_files_def endswith_def EXT_def ingest_file_def file_rows_def
  with_metadata_def set_column_def insert_bronze_def log_error_def fatal_def

lemmas silver_eval =
  silver_stage_def CUTOFF_def recent_def ranked_def partition_of_def rn1_def peers_def
  astype_def silver_of_def transform_def

lemmas gold_eval = gold_stage_def fat_of_def dim_of_def

lemmas ex_eval =
  five_def good_csv_def missing_price_csv_def readme_def renamed_csv_def shifted_csv_def
  at_noon_def yesterday_def empty_db_def shop_def

lemmas ex2_eval =
  spellings_csv_def two_days_def tie_def bad_key_def last_year_def bad_key_csv_def catalogue_def

lemmas evals = lib_eval bronze_eval silver_eval gold_eval ex_eval ex2_eval

subsection \<open>Rows converted as a whole\<close>

lemma convert_all_Some_all:
  "convert_all f xs = Some ys \<Longrightarrow> y \<in> set ys \<Longrightarrow> \<exists>x \<in> set xs. f x = Some y"
  by (induction xs arbitrary: ys) (auto split: option.splits)

lemma convert_all_None_iff:
  "convert_all f xs = None \<longleftrightarrow> (\<exists>x \<in> set xs. f x = None)"
  by (induction xs) (auto split: option.splits)

lemma convert_all_list_all2:
  "convert_all f xs = Some ys \<longleftrightarrow> list_all2 (\<lambda>x y. f x = Some y) xs ys"
proof (induction xs arbitrary: ys)
  case Nil
  then show ?case by auto
next
  case (Cons x xs)
  show ?case
  proof (cases ys)
    case Nil
    then show ?thesis by (simp split: option.splits)
  next
    case (Cons y ys')
    with Cons.IH [of ys'] show ?thesis
      by (auto split: option.splits)
  qed
qed

lemma convert_all_map:
  "convert_all f xs = Some ys \<Longrightarrow> (\<And>x y. f x = Some y \<Longrightarrow> g x = Some (h y)) \<Longrightarrow>
   convert_all g xs = Some (map h ys)"
  by (induction xs arbitrary: ys) (auto split: option.splits)

lemma list_all2_filter:
  assumes "list_all2 R xs ys" and "\<And>x y. R x y \<Longrightarrow> P x \<longleftrightarrow> Q y"
  shows "list_all2 R (filter P xs) (filter Q ys)"
  using assms by (induction xs ys rule: list_all2_induct) auto

lemma list_all2_left:
  "list_all2 R xs ys \<Longrightarrow> x \<in> set xs \<Longrightarrow> \<exists>y \<in> set ys. R x y"
  by (induction xs ys rule: list_all2_induct) auto



lemma map_fixes: "map f xs = xs \<longleftrightarrow> (\<forall>x \<in> set xs. f x = x)"
  by (induction xs) auto

subsection \<open>The loop over the files\<close>

lemma ingest_file_cases:
  "bronze_produtos st = Some old \<Longrightarrow>
   ingest_file L now f st =
     st\<lparr>bronze_produtos := Some (old @ (case file_rows L now f of None \<Rightarrow> [] | Some new \<Rightarrow> new)),
        errors := errors st @ (case file_rows L now f of None \<Rightarrow> [File_skipped (fname f)] | Some new \<Rightarrow> [])\<rparr>"
  by (cases "file_rows L now f") (simp_all add: ingest_file_def log_error_def)

lemma ingest_files_result:
  "bronze_produtos st = Some old \<Longrightarrow>
   ingest_files L clock i fs st =
     st\<lparr>bronze_produtos := Some (old @ loaded L clock i fs),
        errors := errors st @ skipped L clock i fs\<rparr>"
proof (induction fs arbitrary: st old i)
  case Nil
  then show ?case by simp
next
  case (Cons f fs)
  let ?new = "case file_rows L (clock i) f of None \<Rightarrow> [] | Some new \<Rightarrow> new"
  let ?st1 = "ingest_file L (clock i) f st"
  have st1: "?st1 = st\<lparr>bronze_produtos := Some (old @ ?new),
        errors := errors st @ (case file_rows L (clock i) f of None \<Rightarrow> [File_skipped (fname f)] | Some new \<Rightarrow> [])\<rparr>"
    using Cons.prems by (rule ingest_file_cases)
  then have "bronze_produtos ?st1 = Some (old @ ?new)" by simp
  from Cons.IH [OF this] show ?case
    by (simp add: st1)
qed




lemma pipeline_run:
  "pipeline L clock (Some es) st =
     transform L (clock (length (csv_files es)))
       (st\<lparr>bronze_produtos := Some (loaded L clock 0 (csv_files es)),
           errors := errors st @ skipped L clock 0 (csv_files es)\<rparr>)"
proof -
  have "ingest_files L clock 0 (csv_files es) (st\<lparr>bronze_produtos := Some []\<rparr>) =
      st\<lparr>bronze_produtos := Some (loaded L clock 0 (csv_files es)),
         errors := errors st @ skipped L clock 0 (csv_files es)\<rparr>"
    using ingest_files_result [of "st\<lparr>bronze_produtos := Some []\<rparr>" "[]" L clock 0 "csv_files es"]
    by simp
  then show ?thesis
    by (simp add: pipeline_def transform_def Let_def split: prod.splits status.splits)
qed

subsection \<open>The frame of a file\<close>

lemma with_metadata_fresh:
  assumes "''ingest_time'' \<notin> set (columns df)" "''file_name'' \<notin> set (columns df)"
  shows "with_metadata now file df =
           df\<lparr>columns := columns df @ [''ingest_time'', ''file_name''],
              rows := map (\<lambda>r. r @ [Some now, Some file]) (rows df)\<rparr>"
  using assms by (simp add: with_metadata_def set_column_def)

lemma bronze_of_cells_Some:
  "bronze_of_cells L xs = Some x \<Longrightarrow>
   \<exists>a b c d e t f. xs = [a, b, c, d, e, t, f]"
  by (erule bronze_of_cells.elims) simp_all

lemma bronze_of_cells_metadata:
  assumes "bronze_of_cells L (r @ [Some now, Some file]) = Some x"
  shows "ingest_time x = cast_timestamp L now \<and> cast_timestamp L now \<noteq> None
         \<and> file_name x = Some file \<and> length r = 5"
proof -
  from bronze_of_cells_Some [OF assms] obtain a b c d e t f
    where cells: "r @ [Some now, Some file] = [a, b, c, d, e, t, f]"
    by blast
  then have "rev (r @ [Some now, Some file]) = rev [a, b, c, d, e, t, f]"
    by (rule arg_cong)
  then have tf: "f = Some file" "t = Some now" and r: "rev r = [e, d, c, b, a]"
    by simp_all
  from r have "length (rev r) = 5" by simp
  then have len: "length r = 5" by simp
  from assms have "bronze_of_cells L [a, b, c, d, e, Some now, Some file] = Some x"
    unfolding cells tf .
  then show ?thesis
    using len by (auto split: option.splits)
qed

lemma file_rows_fresh:
  assumes "read_csv f = Some df"
    and "''ingest_time'' \<notin> set (columns df)" "''file_name'' \<notin> set (columns df)"
  shows "file_rows L now f =
           (if length (columns df) = 5
            then convert_all (bronze_of_cells L) (map (\<lambda>r. r @ [Some now, Some (fname f)]) (rows df))
            else None)"
  using assms by (simp add: file_rows_def insert_bronze_def with_metadata_fresh)



subsection \<open>Row number 1 of a partition\<close>

lemma peers_member:
  "r \<in> set (peers part) \<longleftrightarrow> r \<in> set part \<and> (\<forall>x \<in> set part. ingest_time x \<le> ingest_time r)"
  by (auto simp: peers_def list_all_iff)

lemma greatest_exists:
  fixes f :: "'a \<Rightarrow> 'b::linorder"
  shows "xs \<noteq> [] \<Longrightarrow> \<exists>r \<in> set xs. \<forall>x \<in> set xs. f x \<le> f r"
proof (induction xs)
  case Nil
  then show ?case by simp
next
  case (Cons a xs)
  show ?case
  proof (cases "xs = []")
    case True
    then show ?thesis by simp
  next
    case False
    with Cons.IH obtain r where r: "r \<in> set xs" "\<forall>x \<in> set xs. f x \<le> f r" by blast
    show ?thesis
    proof (cases "f a \<le> f r")
      case True
      with r show ?thesis by auto
    next
      case False
      then have "f r \<le> f a" by simp
      with r have "\<forall>x \<in> set (a # xs). f x \<le> f a" by auto
      then show ?thesis by auto
    qed
  qed
qed

lemma peers_nonempty: "part \<noteq> [] \<Longrightarrow> peers part \<noteq> []"
proof -
  assume "part \<noteq> []"
  from greatest_exists [OF this, of ingest_time]
  obtain r where "r \<in> set part" "\<forall>x \<in> set part. ingest_time x \<le> ingest_time r" by blast
  then have "r \<in> set (peers part)" by (simp add: peers_member)
  then show ?thesis by auto
qed

lemma rn1_single:
  assumes "part \<noteq> []"
  shows "\<exists>r. rn1 L part = [r] \<and> r \<in> set (peers part)"
proof -
  from peers_nonempty [OF assms] obtain p ps where ps: "peers part = p # ps"
    by (cases "peers part") auto
  let ?i = "peer_choice L (p # ps) mod length (p # ps)"
  have "?i < length (p # ps)" by simp
  then have "(p # ps) ! ?i \<in> set (p # ps)" by (rule nth_mem)
  moreover have "rn1 L part = [(p # ps) ! ?i]" by (simp add: rn1_def ps)
  ultimately show ?thesis using ps by simp
qed

lemma rn1_subset: "r \<in> set (rn1 L part) \<Longrightarrow> r \<in> set (peers part)"
proof (cases "part = []")
  case True
  assume "r \<in> set (rn1 L part)"
  with True show ?thesis by (simp add: rn1_def peers_def)
next
  case False
  assume r: "r \<in> set (rn1 L part)"
  from rn1_single [OF False, of L] obtain r' where "rn1 L part = [r']" "r' \<in> set (peers part)"
    by blast
  with r show ?thesis by simp
qed

lemma partition_member: "r \<in> set (partition_of k b) \<longleftrightarrow> r \<in> set b \<and> NATBR r = k"
  by (auto simp: partition_of_def)

lemma rn1_partition_key:
  "r \<in> set (rn1 L (partition_of k b)) \<Longrightarrow> NATBR r = k \<and> r \<in> set b"
  using rn1_subset [of r L "partition_of k b"] by (simp add: peers_member partition_member)

lemma filter_concat_by_key:
  assumes "distinct ks" and "\<And>k' r. r \<in> set (g k') \<Longrightarrow> key r = k'"
  shows "filter (\<lambda>r. key r = k) (concat (map g ks)) = (if k \<in> set ks then g k else [])"
  using assms(1)
proof (induction ks)
  case Nil
  then show ?case by simp
next
  case (Cons a ks)
  have same: "filter (\<lambda>r. key r = k') (g k') = g k'" for k'
    using assms(2) by (simp add: filter_id_conv)
  have other: "filter (\<lambda>r. key r = k') (g a) = []" if "a \<noteq> k'" for k'
    using assms(2) that by (auto simp: filter_empty_conv)
  from Cons.prems have fresh: "a \<notin> set ks" and rest: "distinct ks" by simp_all
  show ?case
  proof (cases "k = a")
    case True
    with Cons.IH [OF rest] fresh show ?thesis
      by (simp add: same)
  next
    case False
    then have "a \<noteq> k" by simp
    with Cons.IH [OF rest] False show ?thesis
      by (simp add: other)
  qed
qed

lemma ranked_by_key:
  "filter (\<lambda>r. NATBR r = k) (ranked L b) =
     (if k \<in> NATBR ` set b then rn1 L (partition_of k b) else [])"
proof -
  have "filter (\<lambda>r. NATBR r = k) (concat (map (\<lambda>k'. rn1 L (partition_of k' b)) (remdups (map NATBR b))))
      = (if k \<in> set (remdups (map NATBR b)) then rn1 L (partition_of k b) else [])"
    by (rule filter_concat_by_key) (simp_all add: rn1_partition_key)
  then show ?thesis by (simp add: ranked_def)
qed

lemma ranked_subset: "r \<in> set (ranked L b) \<Longrightarrow> r \<in> set b"
  by (auto simp: ranked_def dest: rn1_partition_key)

lemma ranked_are_peers:
  "r \<in> set (ranked L b) \<Longrightarrow> r \<in> set (peers (partition_of (NATBR r) b))"
proof -
  assume "r \<in> set (ranked L b)"
  then obtain k where sel: "r \<in> set (rn1 L (partition_of k b))"
    by (auto simp: ranked_def)
  then have "NATBR r = k" by (simp add: rn1_partition_key)
  with sel show ?thesis by (simp add: rn1_subset)
qed

lemma selected_key_exists:
  assumes "r \<in> set b"
  shows "\<exists>r' \<in> set (ranked L b). NATBR r' = NATBR r"
proof -
  have "partition_of (NATBR r) b \<noteq> []"
    using assms by (auto simp: partition_of_def filter_empty_conv)
  from rn1_single [OF this, of L] obtain r'
    where sel: "rn1 L (partition_of (NATBR r) b) = [r']" by blast
  then have key: "NATBR r' = NATBR r"
    using rn1_partition_key [of r' L "NATBR r" b] by simp
  have "NATBR r \<in> NATBR ` set b" using assms by blast
  then have "filter (\<lambda>x. NATBR x = NATBR r) (ranked L b) = [r']"
    by (simp add: ranked_by_key sel)
  then have "r' \<in> set (filter (\<lambda>x. NATBR x = NATBR r) (ranked L b))" by simp
  then have "r' \<in> set (ranked L b)" by simp
  with key show ?thesis by blast
qed

lemma ranked_one_per_key:
  assumes "r0 \<in> set b"
  shows "\<exists>r. filter (\<lambda>x. NATBR x = NATBR r0) (ranked L b) = [r]
           \<and> r \<in> set b \<and> NATBR r = NATBR r0
           \<and> (\<forall>x \<in> set b. NATBR x = NATBR r0 \<longrightarrow> ingest_time x \<le> ingest_time r)"
proof -
  let ?k = "NATBR r0"
  have part: "partition_of ?k b \<noteq> []"
    using assms by (auto simp: partition_of_def filter_empty_conv)
  from rn1_single [OF part, of L] obtain r
    where sel: "rn1 L (partition_of ?k b) = [r]" and top: "r \<in> set (peers (partition_of ?k b))"
    by blast
  have "?k \<in> NATBR ` set b" using assms by blast
  then have one: "filter (\<lambda>x. NATBR x = ?k) (ranked L b) = [r]"
    by (simp add: ranked_by_key sel)
  have "r \<in> set b" "NATBR r = ?k"
    "\<forall>x \<in> set b. NATBR x = ?k \<longrightarrow> ingest_time x \<le> ingest_time r"
    using top by (simp_all add: peers_member partition_member)
  with one show ?thesis by blast
qed

lemma rn1_choice_irrelevant:
  assumes "length (peers part) \<le> 1"
  shows "rn1 (L\<lparr>peer_choice := choice\<rparr>) part = rn1 L part"
proof (cases "peers part")
  case Nil
  then show ?thesis by (simp add: rn1_def)
next
  case (Cons p ps)
  with assms have "ps = []" by simp
  with Cons show ?thesis by (simp add: rn1_def)
qed

subsection \<open>The stages\<close>

lemma astype_Some:
  "astype L r = Some x \<longleftrightarrow>
     (\<exists>i s p. astype_int64 L (NATBR r) = Some i \<and> astype_int64 L (MAINS r) = Some s
        \<and> astype_float32 L (LABST r) = Some p \<and> x = (i, MAKTX r, WERKS r, s, p))"
  by (auto simp: astype_def split: option.splits)

lemma silver_of_Some:
  "silver_of L now (i, n, c, s, p) = Some row \<longleftrightarrow>
     (\<exists>ts. cast_timestamp L now = Some ts
        \<and> row = \<lparr>s_id = i, s_prod_name = n, s_id_category = c, s_supplier = s,
                  s_price = p, s_ingest_time = ts\<rparr>)"
  by (auto simp: silver_of_def split: option.splits)

lemma astype_key_None: "astype_int64 L (NATBR r) = None \<Longrightarrow> astype L r = None"
  by (simp add: astype_def)

lemma silver_rows_of_ranked:
  assumes "convert_all (astype L) rs = Some df" and "convert_all (silver_of L now) df = Some tbl"
  shows "list_all2 (\<lambda>r row. \<exists>i s p ts.
            astype_int64 L (NATBR r) = Some i \<and> astype_int64 L (MAINS r) = Some s
          \<and> astype_float32 L (LABST r) = Some p \<and> cast_timestamp L now = Some ts
          \<and> row = \<lparr>s_id = i, s_prod_name = MAKTX r, s_id_category = WERKS r, s_supplier = s,
                    s_price = p, s_ingest_time = ts\<rparr>) rs tbl"
  using assms
proof (induction rs arbitrary: df tbl)
  case Nil
  then show ?case by simp
next
  case (Cons r rs)
  from Cons.prems(1) obtain x df' where x: "astype L r = Some x"
    and df': "convert_all (astype L) rs = Some df'" and df: "df = x # df'"
    by (auto split: option.splits)
  from Cons.prems(2) df obtain row tbl' where row: "silver_of L now x = Some row"
    and tbl': "convert_all (silver_of L now) df' = Some tbl'" and tbl: "tbl = row # tbl'"
    by (auto split: option.splits)
  from x obtain i s p where cast: "astype_int64 L (NATBR r) = Some i"
    "astype_int64 L (MAINS r) = Some s" "astype_float32 L (LABST r) = Some p"
    and xv: "x = (i, MAKTX r, WERKS r, s, p)"
    by (auto simp: astype_Some)
  from row xv obtain ts where "cast_timestamp L now = Some ts"
    "row = \<lparr>s_id = i, s_prod_name = MAKTX r, s_id_category = WERKS r, s_supplier = s,
            s_price = p, s_ingest_time = ts\<rparr>"
    by (auto simp: silver_of_Some)
  with cast Cons.IH [OF df' tbl'] tbl show ?case by simp
qed

lemma silver_stage_success:
  assumes "bronze_produtos st = Some b" and "cast_timestamp L CUTOFF = Some c"
    and "silver_stage L now st = (Success, st')"
  shows "\<exists>df tbl. convert_all (astype L) (ranked L (recent c b)) = Some df
           \<and> convert_all (silver_of L now) df = Some tbl
           \<and> st' = st\<lparr>silver_produtos := Some tbl\<rparr>"
  using assms by (auto simp: silver_stage_def fatal_def split: option.splits)

lemma silver_stage_astype_fails:
  assumes "bronze_produtos st = Some b" and "cast_timestamp L CUTOFF = Some c"
    and "r \<in> set (ranked L (recent c b))" and "astype L r = None"
  shows "silver_stage L now st = (Aborted Astype_failed, st\<lparr>errors := errors st @ [Fatal Astype_failed]\<rparr>)"
proof -
  have "convert_all (astype L) (ranked L (recent c b)) = None"
    using assms(3,4) by (auto simp: convert_all_None_iff)
  with assms(1,2) show ?thesis
    by (simp add: silver_stage_def fatal_def log_error_def)
qed

lemma silver_of_restamp:
  assumes "cast_timestamp L now2 = Some t2" and "silver_of L now1 x = Some row"
  shows "silver_of L now2 x = Some (row\<lparr>s_ingest_time := t2\<rparr>)"
  using assms by (auto simp: silver_of_def split: prod.splits option.splits)




lemma gold_stage_result:
  "silver_produtos st = Some s \<Longrightarrow>
   gold_stage st =
     (Success, st\<lparr>gold_produtos_fat := Some (remdups (map fat_of s)),
                  gold_produtos_dim := Some (remdups (map dim_of s))\<rparr>)"
  by (simp add: gold_stage_def Let_def)

lemma f_id_fat_of: "f_id (fat_of r) = s_id r"
  by (simp add: fat_of_def)

lemma d_id_dim_of: "d_id (dim_of r) = s_id r"
  by (simp add: dim_of_def)

subsection \<open>The deduplicating transformer\<close>

text \<open>
  C1, as amended. Let \<open>k\<close> be the key of a raw row that passes the filter, and let no
  row that passes the filter have another key text which \<open>astype('int64')\<close> turns into the
  same integer. When the stage succeeds, \<open>silver_produtos\<close> holds exactly one row whose id
  is the integer of \<open>k\<close>. Its name and category are those of a raw row \<open>r\<close> with key
  \<open>k\<close> that passes the filter and whose ingestion timestamp no row of that key exceeds; its
  supplier and price are the casts of the cells of \<open>r\<close>, and its timestamp is the
  processing time.
\<close>

theorem one_current_row_per_key:
  assumes bronze: "bronze_produtos st = Some b"
    and cutoff: "cast_timestamp L CUTOFF = Some c"
    and ok: "silver_stage L now st = (Success, st')"
    and present: "r0 \<in> set (recent c b)" "NATBR r0 = k"
    and alone: "\<forall>r \<in> set (recent c b). astype_int64 L (NATBR r) = astype_int64 L k \<longrightarrow> NATBR r = k"
  shows "\<exists>r i sup p ts tbl.
      silver_produtos st' = Some tbl
    \<and> r \<in> set (recent c b) \<and> NATBR r = k
    \<and> (\<forall>x \<in> set (recent c b). NATBR x = k \<longrightarrow> ingest_time x \<le> ingest_time r)
    \<and> astype_int64 L k = Some i \<and> astype_int64 L (MAINS r) = Some sup
    \<and> astype_float32 L (LABST r) = Some p \<and> cast_timestamp L now = Some ts
    \<and> filter (\<lambda>row. s_id row = i) tbl =
        [\<lparr>s_id = i, s_prod_name = MAKTX r, s_id_category = WERKS r, s_supplier = sup,
          s_price = p, s_ingest_time = ts\<rparr>]"
proof -
  let ?F = "recent c b"
  let ?R = "\<lambda>r row. \<exists>i s p ts.
            astype_int64 L (NATBR r) = Some i \<and> astype_int64 L (MAINS r) = Some s
          \<and> astype_float32 L (LABST r) = Some p \<and> cast_timestamp L now = Some ts
          \<and> row = \<lparr>s_id = i, s_prod_name = MAKTX r, s_id_category = WERKS r, s_supplier = s,
                    s_price = p, s_ingest_time = ts\<rparr>"
  from silver_stage_success [OF bronze cutoff ok] obtain df tbl
    where df: "convert_all (astype L) (ranked L ?F) = Some df"
      and tbl: "convert_all (silver_of L now) df = Some tbl"
      and st': "st' = st\<lparr>silver_produtos := Some tbl\<rparr>"
    by blast
  have rel: "list_all2 ?R (ranked L ?F) tbl"
    using df tbl by (rule silver_rows_of_ranked)
  \<comment> \<open>the one row the query selects for \<open>k\<close>\<close>
  have part: "partition_of k ?F \<noteq> []"
    using present by (auto simp: partition_of_def filter_empty_conv)
  from rn1_single [OF part, of L] obtain r
    where sel: "rn1 L (partition_of k ?F) = [r]" and top: "r \<in> set (peers (partition_of k ?F))"
    by blast
  have r_in: "r \<in> set ?F" and r_key: "NATBR r = k"
    and r_max: "\<forall>x \<in> set ?F. NATBR x = k \<longrightarrow> ingest_time x \<le> ingest_time r"
    using top by (simp_all add: peers_member partition_member)
  have "k \<in> NATBR ` set ?F"
    using present by blast
  then have by_key: "filter (\<lambda>x. NATBR x = k) (ranked L ?F) = [r]"
    by (simp add: ranked_by_key sel)
  then have "r \<in> set (filter (\<lambda>x. NATBR x = k) (ranked L ?F))"
    by simp
  then have "r \<in> set (ranked L ?F)"
    by simp
  with rel obtain row where "row \<in> set tbl" "?R r row"
    using list_all2_left [of ?R "ranked L ?F" tbl r] by blast
  then obtain i sup p ts where casts: "astype_int64 L (NATBR r) = Some i"
    "astype_int64 L (MAINS r) = Some sup" "astype_float32 L (LABST r) = Some p"
    "cast_timestamp L now = Some ts"
    by blast
  have ik: "astype_int64 L k = Some i"
    using casts(1) r_key by simp
  \<comment> \<open>rows of the table with this id come from rows of this key\<close>
  have same_filter: "filter (\<lambda>x. astype_int64 L (NATBR x) = Some i) (ranked L ?F)
      = filter (\<lambda>x. NATBR x = k) (ranked L ?F)"
  proof (rule filter_cong [OF refl])
    fix x assume "x \<in> set (ranked L ?F)"
    then have "x \<in> set ?F" by (rule ranked_subset)
    with alone ik show "(astype_int64 L (NATBR x) = Some i) = (NATBR x = k)"
      by auto
  qed
  have "list_all2 ?R (filter (\<lambda>x. astype_int64 L (NATBR x) = Some i) (ranked L ?F))
      (filter (\<lambda>row. s_id row = i) tbl)"
    using rel by (rule list_all2_filter) auto
  then have "list_all2 ?R [r] (filter (\<lambda>row. s_id row = i) tbl)"
    by (simp add: same_filter by_key)
  then obtain row' where one: "filter (\<lambda>row. s_id row = i) tbl = [row']" and "?R r row'"
    by (auto simp: list_all2_Cons1)
  with casts have "row' = \<lparr>s_id = i, s_prod_name = MAKTX r, s_id_category = WERKS r,
      s_supplier = sup, s_price = p, s_ingest_time = ts\<rparr>"
    by auto
  with one have final: "filter (\<lambda>row. s_id row = i) tbl =
      [\<lparr>s_id = i, s_prod_name = MAKTX r, s_id_category = WERKS r, s_supplier = sup,
        s_price = p, s_ingest_time = ts\<rparr>]"
    by simp
  have "silver_produtos st' = Some tbl"
    by (simp add: st')
  with r_in r_key r_max ik casts(2,3,4) final show ?thesis
    by blast
qed

text \<open>
  The amended claim on the raw table \<open>two_days\<close>: the row of product 1 is the one of
  the later day.
\<close>

theorem one_current_row_per_key_witness:
  "bronze_produtos two_days \<noteq> None
   \<and> cast_timestamp (reference first_peer) CUTOFF = Some 20250101000000
   \<and> fst (silver_stage (reference first_peer) ''2025-06-02 08:00:00'' two_days) = Success
   \<and> (\<exists>tbl. silver_produtos (snd (silver_stage (reference first_peer) ''2025-06-02 08:00:00'' two_days))
          = Some tbl
        \<and> filter (\<lambda>row. s_id row = 1) tbl =
            [\<lparr>s_id = 1, s_prod_name = Some ''Mouse'', s_id_category = Some ''C1'', s_supplier = 7,
              s_price = Some 12, s_ingest_time = 20250602080000\<rparr>])"
proof -
  let ?R = "reference first_peer"
  let ?now = "''2025-06-02 08:00:00''"
  let ?a = "\<lparr>NATBR = Some ''1'', MAKTX = Some ''Mouse'', WERKS = Some ''C1'', MAINS = Some ''7'',
       LABST = Some ''10'', ingest_time = Some (20250531120000::nat), file_name = Some ''a.csv''\<rparr>"
  let ?b = "\<lparr>NATBR = Some ''1'', MAKTX = Some ''Mouse'', WERKS = Some ''C1'', MAINS = Some ''7'',
       LABST = Some ''12'', ingest_time = Some (20250601120000::nat), file_name = Some ''b.csv''\<rparr>"
  let ?c = "\<lparr>NATBR = Some ''2'', MAKTX = Some ''Cable'', WERKS = Some ''C1'', MAINS = Some ''7'',
       LABST = Some ''5'', ingest_time = Some (20250601120000::nat), file_name = Some ''b.csv''\<rparr>"
  let ?st' = "snd (silver_stage ?R ?now two_days)"
  have h1: "bronze_produtos two_days = Some [?a, ?b, ?c]"
    by (simp add: ex2_eval empty_db_def)
  have h2: "cast_timestamp ?R CUTOFF = Some 20250101000000"
    by (simp add: lib_eval CUTOFF_def)
  have ok: "fst (silver_stage ?R ?now two_days) = Success"
    by (simp add: evals)
  then have h3: "silver_stage ?R ?now two_days = (Success, ?st')"
    by (simp add: prod_eq_iff)
  have h4: "?a \<in> set (recent 20250101000000 [?a, ?b, ?c])"
    by (simp add: recent_def)
  have h5: "NATBR ?a = Some ''1''"
    by simp
  have h6: "\<forall>r \<in> set (recent 20250101000000 [?a, ?b, ?c]).
      astype_int64 ?R (NATBR r) = astype_int64 ?R (Some ''1'') \<longrightarrow> NATBR r = Some ''1''"
    by (simp add: recent_def lib_eval)
  from one_current_row_per_key [OF h1 h2 h3 h4 h5 h6]
  obtain r i sup p ts tbl where tbl: "silver_produtos ?st' = Some tbl"
    and r: "r \<in> set (recent 20250101000000 [?a, ?b, ?c])" "NATBR r = Some ''1''"
    and top: "\<forall>x \<in> set (recent 20250101000000 [?a, ?b, ?c]).
        NATBR x = Some ''1'' \<longrightarrow> ingest_time x \<le> ingest_time r"
    and casts: "astype_int64 ?R (Some ''1'') = Some i" "astype_int64 ?R (MAINS r) = Some sup"
      "astype_float32 ?R (LABST r) = Some p" "cast_timestamp ?R ?now = Some ts"
    and row: "filter (\<lambda>row. s_id row = i) tbl =
        [\<lparr>s_id = i, s_prod_name = MAKTX r, s_id_category = WERKS r, s_supplier = sup,
          s_price = p, s_ingest_time = ts\<rparr>]"
    by blast
  from r top have "r = ?b"
    by (auto simp: recent_def)
  with casts row have "filter (\<lambda>row. s_id row = 1) tbl =
      [\<lparr>s_id = 1, s_prod_name = Some ''Mouse'', s_id_category = Some ''C1'', s_supplier = 7,
        s_price = Some 12, s_ingest_time = 20250602080000\<rparr>]"
    by (auto simp: lib_eval)
  with tbl h1 h2 ok show ?thesis by simp
qed

text \<open>
  C1 as stated fails where two key texts denote one integer: the query partitions by the text
  of \<open>NATBR\<close>, the cast comes after. The run on \<open>spellings_csv\<close> succeeds and leaves
  two rows with id 1 in the current-state table.
\<close>

theorem spellings_counterexample:
  "fst (pipeline (reference first_peer) at_noon (Some [spellings_csv]) empty_db) = Success
   \<and> map_option (map NATBR)
        (bronze_produtos (snd (pipeline (reference first_peer) at_noon (Some [spellings_csv]) empty_db)))
      = Some [Some ''1'', Some ''01'', Some ''2_0'']
   \<and> map_option (map s_id)
        (silver_produtos (snd (pipeline (reference first_peer) at_noon (Some [spellings_csv]) empty_db)))
      = Some [1, 1, 20]"
  by (simp add: evals)

text \<open>
  C2. If \<open>astype\<close> fails on a row the query selected (on its key, its supplier or its
  price), and so whenever a row that passes the filter has a key that is no integer, the stage
  logs the error and aborts with the database as it was: \<open>silver_produtos\<close> is untouched,
  since the cast of lines 136 to 146 stands before the DROP of line 152. The run as a whole
  aborts too, with the current-state, fact and dimension tables it started with.
\<close>

theorem failed_cast_aborts_before_the_table_is_replaced:
  assumes "bronze_produtos st = Some b" and "cast_timestamp L CUTOFF = Some c"
    and "(r \<in> set (ranked L (recent c b)) \<and> astype L r = None)
         \<or> (r \<in> set (recent c b) \<and> astype_int64 L (NATBR r) = None)"
  shows "silver_stage L now st
           = (Aborted Astype_failed, st\<lparr>errors := errors st @ [Fatal Astype_failed]\<rparr>)
         \<and> transform L now st
           = (Aborted Astype_failed, st\<lparr>errors := errors st @ [Fatal Astype_failed]\<rparr>)
         \<and> (\<forall>clock es st0. loaded L clock 0 (csv_files es) = b \<longrightarrow>
              (\<exists>st'. pipeline L clock (Some es) st0 = (Aborted Astype_failed, st')
                 \<and> silver_produtos st' = silver_produtos st0
                 \<and> gold_produtos_fat st' = gold_produtos_fat st0
                 \<and> gold_produtos_dim st' = gold_produtos_dim st0
                 \<and> Fatal Astype_failed \<in> set (errors st')))"
proof -
  obtain r' where sel: "r' \<in> set (ranked L (recent c b))" and bad: "astype L r' = None"
  proof (cases "r \<in> set (ranked L (recent c b)) \<and> astype L r = None")
    case True
    then show ?thesis using that by blast
  next
    case False
    with assms(3) have "r \<in> set (recent c b)" and key: "astype_int64 L (NATBR r) = None"
      by blast+
    from selected_key_exists [OF this(1), of L] obtain r'
      where "r' \<in> set (ranked L (recent c b))" "NATBR r' = NATBR r"
      by blast
    with key show ?thesis using that astype_key_None [of L r'] by simp
  qed
  show ?thesis
  proof (intro conjI allI impI)
    show stage: "silver_stage L now st
        = (Aborted Astype_failed, st\<lparr>errors := errors st @ [Fatal Astype_failed]\<rparr>)"
      using assms(1,2) sel bad by (rule silver_stage_astype_fails)
    then show "transform L now st
        = (Aborted Astype_failed, st\<lparr>errors := errors st @ [Fatal Astype_failed]\<rparr>)"
      by (simp add: transform_def)
  next
    fix clock es and st0 :: "('a, 'b) state"
    assume b: "loaded L clock 0 (csv_files es) = b"
    let ?n = "clock (length (csv_files es))"
    let ?in = "st0\<lparr>bronze_produtos := Some (loaded L clock 0 (csv_files es)),
             errors := errors st0 @ skipped L clock 0 (csv_files es)\<rparr>"
    let ?out = "?in\<lparr>errors := errors ?in @ [Fatal Astype_failed]\<rparr>"
    have "bronze_produtos ?in = Some b" using b by simp
    from silver_stage_astype_fails [OF this assms(2) sel bad, of ?n]
    have "transform L ?n ?in = (Aborted Astype_failed, ?out)"
      by (simp add: transform_def)
    then have "pipeline L clock (Some es) st0 = (Aborted Astype_failed, ?out)"
      by (simp add: pipeline_run)
    moreover have "silver_produtos ?out = silver_produtos st0"
      "gold_produtos_fat ?out = gold_produtos_fat st0"
      "gold_produtos_dim ?out = gold_produtos_dim st0"
      "Fatal Astype_failed \<in> set (errors ?out)"
      by simp_all
    ultimately show "\<exists>st'. pipeline L clock (Some es) st0 = (Aborted Astype_failed, st')
                   \<and> silver_produtos st' = silver_produtos st0
                   \<and> gold_produtos_fat st' = gold_produtos_fat st0
                   \<and> gold_produtos_dim st' = gold_produtos_dim st0
                   \<and> Fatal Astype_failed \<in> set (errors st')"
      by blast
  qed
qed

text \<open>
  C2 on a raw table whose only key is \<open>abc\<close>: the stage aborts and the current-state
  table of the run before is still there. So it is after a whole run over a directory whose
  file brings that key.
\<close>

theorem failed_cast_aborts_before_the_table_is_replaced_witness:
  "astype_int64 (reference first_peer) (Some ''abc'') = None
   \<and> silver_stage (reference first_peer) ''2025-06-02 08:00:00'' bad_key
       = (Aborted Astype_failed, bad_key\<lparr>errors := [Fatal Astype_failed]\<rparr>)
   \<and> silver_produtos bad_key = silver_produtos shop \<and> silver_produtos shop \<noteq> None
   \<and> map_option (map NATBR) (Some (loaded (reference first_peer) at_noon 0 (csv_files [bad_key_csv])))
       = Some [Some ''abc'']
   \<and> fst (pipeline (reference first_peer) at_noon (Some [bad_key_csv]) shop) = Aborted Astype_failed
   \<and> silver_produtos (snd (pipeline (reference first_peer) at_noon (Some [bad_key_csv]) shop))
       = silver_produtos shop"
proof -
  let ?R = "reference first_peer"
  let ?r = "\<lparr>NATBR = Some ''abc'', MAKTX = Some ''Mouse'', WERKS = Some ''C1'', MAINS = Some ''7'',
       LABST = Some ''10'', ingest_time = Some (20250601120000::nat), file_name = Some ''a.csv''\<rparr>"
  let ?q = "\<lparr>NATBR = Some ''abc'', MAKTX = Some ''Mouse'', WERKS = Some ''C1'', MAINS = Some ''7'',
       LABST = Some ''10'', ingest_time = Some (20250601120000::nat), file_name = Some ''f.csv''\<rparr>"
  have h1: "bronze_produtos bad_key = Some [?r]"
    by (simp add: ex2_eval ex_eval)
  have h2: "cast_timestamp ?R CUTOFF = Some 20250101000000"
    by (simp add: lib_eval CUTOFF_def)
  have key: "astype_int64 ?R (Some ''abc'') = None"
    by (simp add: lib_eval)
  have "?r \<in> set (recent 20250101000000 [?r])"
    by (simp add: recent_def)
  with key have h3: "(?r \<in> set (ranked ?R (recent 20250101000000 [?r])) \<and> astype ?R ?r = None)
      \<or> (?r \<in> set (recent 20250101000000 [?r]) \<and> astype_int64 ?R (NATBR ?r) = None)"
    by simp
  from failed_cast_aborts_before_the_table_is_replaced [OF h1 h2 h3, of "''2025-06-02 08:00:00''"]
  have stage: "silver_stage ?R ''2025-06-02 08:00:00'' bad_key
       = (Aborted Astype_failed, bad_key\<lparr>errors := errors bad_key @ [Fatal Astype_failed]\<rparr>)"
    by blast
  have facts: "errors bad_key = []" "silver_produtos bad_key = silver_produtos shop"
    "silver_produtos shop \<noteq> None"
    by (simp_all add: ex2_eval ex_eval)
  \<comment> \<open>the same key arriving in a file of the run\<close>
  have g1: "bronze_produtos (shop\<lparr>bronze_produtos := Some [?q]\<rparr>) = Some [?q]"
    by simp
  have "?q \<in> set (recent 20250101000000 [?q])"
    by (simp add: recent_def)
  with key have g3: "(?q \<in> set (ranked ?R (recent 20250101000000 [?q])) \<and> astype ?R ?q = None)
      \<or> (?q \<in> set (recent 20250101000000 [?q]) \<and> astype_int64 ?R (NATBR ?q) = None)"
    by simp
  have arrived: "loaded ?R at_noon 0 (csv_files [bad_key_csv]) = [?q]"
    by (simp add: lib_eval ex_eval bad_key_csv_def csv_files_def endswith_def EXT_def
        file_rows_def with_metadata_def set_column_def insert_bronze_def)
  from failed_cast_aborts_before_the_table_is_replaced [OF g1 h2 g3, of "''''"] arrived
  obtain st' where "pipeline ?R at_noon (Some [bad_key_csv]) shop = (Aborted Astype_failed, st')"
    "silver_produtos st' = silver_produtos shop"
    by blast
  with stage facts key arrived show ?thesis by simp
qed

text \<open>
  C4, as amended. A second run of stages 4.2 and 4.3 on the tables a successful first run
  left (the raw table unchanged, the engine choosing among tied rows as before) succeeds and
  produces the same fact and dimension tables; the current-state table has the same rows but for
  the column \<open>ingest_time\<close>, which holds the wall-clock time of the second run. The two
  current-state tables, and the two states as a whole, are the same exactly when the table is
  empty or the engine reads the clock texts of both runs as the same timestamp.
\<close>

theorem rerun_changes_the_processing_time_only:
  assumes first: "transform L now1 st = (Success, st1)"
    and clock: "cast_timestamp L now2 = Some t2"
  shows "\<exists>st2 s1. transform L now2 st1 = (Success, st2)
           \<and> bronze_produtos st2 = bronze_produtos st1
           \<and> gold_produtos_fat st2 = gold_produtos_fat st1
           \<and> gold_produtos_dim st2 = gold_produtos_dim st1
           \<and> silver_produtos st1 = Some s1
           \<and> silver_produtos st2 = Some (map (\<lambda>r. r\<lparr>s_ingest_time := t2\<rparr>) s1)
           \<and> (silver_produtos st2 = silver_produtos st1
                \<longleftrightarrow> s1 = [] \<or> cast_timestamp L now1 = Some t2)
           \<and> (st2 = st1 \<longleftrightarrow> s1 = [] \<or> cast_timestamp L now1 = Some t2)"
proof -
  from first obtain sa where stage: "silver_stage L now1 st = (Success, sa)"
    and gold: "gold_stage sa = (Success, st1)"
    by (auto simp: transform_def split: prod.splits status.splits)
  from stage obtain b c where b: "bronze_produtos st = Some b"
    and c: "cast_timestamp L CUTOFF = Some c"
    by (auto simp: silver_stage_def fatal_def split: option.splits)
  from silver_stage_success [OF b c stage] obtain df s1
    where df: "convert_all (astype L) (ranked L (recent c b)) = Some df"
      and s1: "convert_all (silver_of L now1) df = Some s1"
      and sa: "sa = st\<lparr>silver_produtos := Some s1\<rparr>"
    by blast
  let ?F = "Some (remdups (map fat_of s1))" and ?D = "Some (remdups (map dim_of s1))"
  have st1: "st1 = st\<lparr>silver_produtos := Some s1, gold_produtos_fat := ?F,
      gold_produtos_dim := ?D\<rparr>"
    using gold by (simp add: sa gold_stage_def Let_def)
  let ?s2 = "map (\<lambda>r. r\<lparr>s_ingest_time := t2\<rparr>) s1"
  have s2: "convert_all (silver_of L now2) df = Some ?s2"
    using s1 by (rule convert_all_map) (rule silver_of_restamp [OF clock])
  have stage2: "silver_stage L now2 st1 = (Success, st1\<lparr>silver_produtos := Some ?s2\<rparr>)"
    using b c df s2 by (simp add: st1 silver_stage_def)
  have fat: "fat_of \<circ> s_ingest_time_update (\<lambda>_. t2) = fat_of"
    and dim: "dim_of \<circ> s_ingest_time_update (\<lambda>_. t2) = dim_of"
    by (rule ext, simp add: fat_of_def dim_of_def)+
  let ?st2 = "st1\<lparr>silver_produtos := Some ?s2\<rparr>"
  have run2: "transform L now2 st1 = (Success, ?st2)"
    using stage2 by (simp add: transform_def gold_stage_def Let_def fat dim st1)
  \<comment> \<open>every row of the first table carries the first processing time\<close>
  have stamp: "cast_timestamp L now1 = Some (s_ingest_time r)" if "r \<in> set s1" for r
  proof -
    from convert_all_Some_all [OF s1 that] obtain x where "silver_of L now1 x = Some r" by blast
    then show ?thesis
      by (auto simp: silver_of_def split: prod.splits option.splits)
  qed
  have same_table: "?s2 = s1 \<longleftrightarrow> s1 = [] \<or> cast_timestamp L now1 = Some t2"
  proof
    assume eq: "?s2 = s1"
    show "s1 = [] \<or> cast_timestamp L now1 = Some t2"
    proof (cases s1)
      case Nil
      then show ?thesis by simp
    next
      case (Cons r rs)
      then have r: "r \<in> set s1" by simp
      from eq have "\<forall>x \<in> set s1. x\<lparr>s_ingest_time := t2\<rparr> = x"
        by (simp add: map_fixes)
      with r have "r\<lparr>s_ingest_time := t2\<rparr> = r" by blast
      then have "s_ingest_time (r\<lparr>s_ingest_time := t2\<rparr>) = s_ingest_time r" by simp
      then have "s_ingest_time r = t2" by simp
      with stamp [OF r] show ?thesis by simp
    qed
  next
    assume "s1 = [] \<or> cast_timestamp L now1 = Some t2"
    then show "?s2 = s1"
    proof
      assume "s1 = []"
      then show ?thesis by simp
    next
      assume t: "cast_timestamp L now1 = Some t2"
      have "\<forall>x \<in> set s1. x\<lparr>s_ingest_time := t2\<rparr> = x"
      proof
        fix x assume "x \<in> set s1"
        from stamp [OF this] t have "s_ingest_time x = t2" by simp
        then show "x\<lparr>s_ingest_time := t2\<rparr> = x" by simp
      qed
      then show ?thesis by (simp add: map_fixes)
    qed
  qed
  have tables: "silver_produtos ?st2 = silver_produtos st1 \<longleftrightarrow> ?s2 = s1"
    by (simp add: st1)
  have states: "?st2 = st1 \<longleftrightarrow> ?s2 = s1"
  proof
    assume "?st2 = st1"
    then have "silver_produtos ?st2 = silver_produtos st1" by simp
    with tables show "?s2 = s1" by simp
  next
    assume "?s2 = s1"
    then show "?st2 = st1" by (simp add: st1)
  qed
  show ?thesis
  proof (intro exI conjI)
    show "transform L now2 st1 = (Success, ?st2)" by (rule run2)
    show "bronze_produtos ?st2 = bronze_produtos st1" by simp
    show "gold_produtos_fat ?st2 = gold_produtos_fat st1" by simp
    show "gold_produtos_dim ?st2 = gold_produtos_dim st1" by simp
    show "silver_produtos st1 = Some s1" by (simp add: st1)
    show "silver_produtos ?st2 = Some ?s2" by simp
    show "silver_produtos ?st2 = silver_produtos st1
        \<longleftrightarrow> s1 = [] \<or> cast_timestamp L now1 = Some t2"
      using tables same_table by simp
    show "?st2 = st1 \<longleftrightarrow> s1 = [] \<or> cast_timestamp L now1 = Some t2"
      using states same_table by simp
  qed
qed

text \<open>
  The amended claim on \<open>two_days\<close>, the second run five seconds after the first: fact and
  dimension are the same, the current-state tables differ.
\<close>

theorem rerun_changes_the_processing_time_only_witness:
  "fst (transform (reference first_peer) ''2025-06-02 08:00:00'' two_days) = Success
   \<and> cast_timestamp (reference first_peer) ''2025-06-02 08:00:05'' = Some 20250602080005
   \<and> fst (transform (reference first_peer) ''2025-06-02 08:00:05''
        (snd (transform (reference first_peer) ''2025-06-02 08:00:00'' two_days))) = Success
   \<and> gold_produtos_fat (snd (transform (reference first_peer) ''2025-06-02 08:00:05''
        (snd (transform (reference first_peer) ''2025-06-02 08:00:00'' two_days))))
      = gold_produtos_fat (snd (transform (reference first_peer) ''2025-06-02 08:00:00'' two_days))
   \<and> gold_produtos_dim (snd (transform (reference first_peer) ''2025-06-02 08:00:05''
        (snd (transform (reference first_peer) ''2025-06-02 08:00:00'' two_days))))
      = gold_produtos_dim (snd (transform (reference first_peer) ''2025-06-02 08:00:00'' two_days))
   \<and> silver_produtos (snd (transform (reference first_peer) ''2025-06-02 08:00:05''
        (snd (transform (reference first_peer) ''2025-06-02 08:00:00'' two_days))))
      \<noteq> silver_produtos (snd (transform (reference first_peer) ''2025-06-02 08:00:00'' two_days))"
proof -
  let ?R = "reference first_peer"
  let ?st1 = "snd (transform ?R ''2025-06-02 08:00:00'' two_days)"
  have ok: "fst (transform ?R ''2025-06-02 08:00:00'' two_days) = Success"
    by (simp add: evals)
  then have h1: "transform ?R ''2025-06-02 08:00:00'' two_days = (Success, ?st1)"
    by (simp add: prod_eq_iff)
  have h2: "cast_timestamp ?R ''2025-06-02 08:00:05'' = Some 20250602080005"
    by (simp add: lib_eval)
  from rerun_changes_the_processing_time_only [OF h1 h2]
  obtain st2 s1 where run: "transform ?R ''2025-06-02 08:00:05'' ?st1 = (Success, st2)"
    and gold: "gold_produtos_fat st2 = gold_produtos_fat ?st1"
      "gold_produtos_dim st2 = gold_produtos_dim ?st1"
    and s1: "silver_produtos ?st1 = Some s1"
    and iff: "silver_produtos st2 = silver_produtos ?st1
        \<longleftrightarrow> s1 = [] \<or> cast_timestamp ?R ''2025-06-02 08:00:00'' = Some 20250602080005"
    by blast
  have "map_option length (silver_produtos ?st1) = Some 2"
    by (simp add: evals)
  with s1 have "s1 \<noteq> []" by auto
  moreover have "cast_timestamp ?R ''2025-06-02 08:00:00'' \<noteq> Some 20250602080005"
    by (simp add: lib_eval)
  ultimately have differ: "silver_produtos st2 \<noteq> silver_produtos ?st1"
    using iff by simp
  from run have st2: "st2 = snd (transform ?R ''2025-06-02 08:00:05'' ?st1)"
    and ok2: "fst (transform ?R ''2025-06-02 08:00:05'' ?st1) = Success"
    by simp_all
  show ?thesis
    using ok h2 ok2 gold differ unfolding st2 by (intro conjI)
qed

text \<open>
  C4 as stated fails: line 149 stamps every current-state row with the time of the run, so
  two runs five seconds apart leave different current-state tables.
\<close>

theorem rerun_counterexample:
  "fst (transform (reference first_peer) ''2025-06-02 08:00:00'' two_days) = Success
   \<and> map_option (map s_ingest_time) (silver_produtos
        (snd (transform (reference first_peer) ''2025-06-02 08:00:00'' two_days)))
      = Some [20250602080000, 20250602080000]
   \<and> fst (transform (reference first_peer) ''2025-06-02 08:00:05''
        (snd (transform (reference first_peer) ''2025-06-02 08:00:00'' two_days))) = Success
   \<and> map_option (map s_ingest_time) (silver_produtos
        (snd (transform (reference first_peer) ''2025-06-02 08:00:05''
          (snd (transform (reference first_peer) ''2025-06-02 08:00:00'' two_days)))))
      = Some [20250602080005, 20250602080005]"
  by (simp add: evals)

text \<open>
  C8, as amended. The query orders a partition by \<open>ingest_time\<close> and by nothing else.
  Whatever the engine chooses, for the key of every row that passes the filter the query selects
  exactly one row: a row of that key that passes the filter and whose timestamp no such row of
  the key exceeds. Where no two rows of a key that pass the filter share the greatest timestamp
  of that key, any two engines select the same rows, and the stage has the same outcome with
  both when it reads the same clock text; on a tie the row taken is the engine's choice.
\<close>

theorem engine_choice_matters_on_ties_only:
  assumes "bronze_produtos st = Some b" and "cast_timestamp L CUTOFF = Some c"
  shows "(\<forall>choice. \<forall>r0 \<in> set (recent c b).
            \<exists>r. filter (\<lambda>x. NATBR x = NATBR r0)
                   (ranked (L\<lparr>peer_choice := choice\<rparr>) (recent c b)) = [r]
              \<and> r \<in> set (recent c b) \<and> NATBR r = NATBR r0
              \<and> (\<forall>x \<in> set (recent c b). NATBR x = NATBR r0 \<longrightarrow> ingest_time x \<le> ingest_time r))
         \<and> ((\<forall>k. length (peers (partition_of k (recent c b))) \<le> 1) \<longrightarrow>
              (\<forall>choice1 choice2.
                  ranked (L\<lparr>peer_choice := choice1\<rparr>) (recent c b)
                    = ranked (L\<lparr>peer_choice := choice2\<rparr>) (recent c b)
                \<and> (\<forall>now. silver_stage (L\<lparr>peer_choice := choice1\<rparr>) now st
                           = silver_stage (L\<lparr>peer_choice := choice2\<rparr>) now st)))"
proof (intro conjI allI ballI impI)
  fix choice r0
  assume "r0 \<in> set (recent c b)"
  then show "\<exists>r. filter (\<lambda>x. NATBR x = NATBR r0)
                   (ranked (L\<lparr>peer_choice := choice\<rparr>) (recent c b)) = [r]
              \<and> r \<in> set (recent c b) \<and> NATBR r = NATBR r0
              \<and> (\<forall>x \<in> set (recent c b). NATBR x = NATBR r0 \<longrightarrow> ingest_time x \<le> ingest_time r)"
    by (rule ranked_one_per_key)
next
  fix choice1 choice2
  assume no_tie: "\<forall>k. length (peers (partition_of k (recent c b))) \<le> 1"
  have fixed: "ranked (L\<lparr>peer_choice := ch\<rparr>) (recent c b) = ranked L (recent c b)" for ch
    using no_tie by (simp add: ranked_def rn1_choice_irrelevant)
  show sel: "ranked (L\<lparr>peer_choice := choice1\<rparr>) (recent c b)
      = ranked (L\<lparr>peer_choice := choice2\<rparr>) (recent c b)"
    by (simp add: fixed)
  fix now
  have stage: "silver_stage (L\<lparr>peer_choice := ch\<rparr>) now st = silver_stage L now st" for ch
  proof -
    let ?L' = "L\<lparr>peer_choice := ch\<rparr>"
    have "astype ?L' = astype L"
      by (rule ext) (simp add: astype_def cong: option.case_cong)
    moreover have "silver_of ?L' now = silver_of L now"
      by (rule ext) (simp add: silver_of_def split: prod.splits)
    ultimately show ?thesis
      using assms fixed [of ch] by (simp add: silver_stage_def cong: option.case_cong)
  qed
  show "silver_stage (L\<lparr>peer_choice := choice1\<rparr>) now st
      = silver_stage (L\<lparr>peer_choice := choice2\<rparr>) now st"
    by (simp add: stage)
qed

text \<open>
  The amended claim on \<open>two_days\<close>, where the two versions of product 1 differ in
  their timestamps: both engines select the same rows, for product 1 the version of the later
  day.
\<close>

theorem engine_choice_matters_on_ties_only_witness:
  "bronze_produtos two_days \<noteq> None
   \<and> cast_timestamp (reference first_peer) CUTOFF = Some 20250101000000
   \<and> ranked ((reference first_peer)\<lparr>peer_choice := first_peer\<rparr>) (recent 20250101000000
        [\<lparr>NATBR = Some ''1'', MAKTX = Some ''Mouse'', WERKS = Some ''C1'', MAINS = Some ''7'',
          LABST = Some ''10'', ingest_time = Some 20250531120000, file_name = Some ''a.csv''\<rparr>,
         \<lparr>NATBR = Some ''1'', MAKTX = Some ''Mouse'', WERKS = Some ''C1'', MAINS = Some ''7'',
          LABST = Some ''12'', ingest_time = Some 20250601120000, file_name = Some ''b.csv''\<rparr>,
         \<lparr>NATBR = Some ''2'', MAKTX = Some ''Cable'', WERKS = Some ''C1'', MAINS = Some ''7'',
          LABST = Some ''5'', ingest_time = Some 20250601120000, file_name = Some ''b.csv''\<rparr>])
     = ranked ((reference first_peer)\<lparr>peer_choice := last_peer\<rparr>) (recent 20250101000000
        [\<lparr>NATBR = Some ''1'', MAKTX = Some ''Mouse'', WERKS = Some ''C1'', MAINS = Some ''7'',
          LABST = Some ''10'', ingest_time = Some 20250531120000, file_name = Some ''a.csv''\<rparr>,
         \<lparr>NATBR = Some ''1'', MAKTX = Some ''Mouse'', WERKS = Some ''C1'', MAINS = Some ''7'',
          LABST = Some ''12'', ingest_time = Some 20250601120000, file_name = Some ''b.csv''\<rparr>,
         \<lparr>NATBR = Some ''2'', MAKTX = Some ''Cable'', WERKS = Some ''C1'', MAINS = Some ''7'',
          LABST = Some ''5'', ingest_time = Some 20250601120000, file_name = Some ''b.csv''\<rparr>])
   \<and> silver_stage ((reference first_peer)\<lparr>peer_choice := first_peer\<rparr>) ''2025-06-02 08:00:00'' two_days
     = silver_stage ((reference first_peer)\<lparr>peer_choice := last_peer\<rparr>) ''2025-06-02 08:00:00'' two_days
   \<and> fst (silver_stage (reference first_peer) ''2025-06-02 08:00:00'' two_days) = Success
   \<and> (\<exists>r. filter (\<lambda>x. NATBR x = Some ''1'')
          (ranked ((reference first_peer)\<lparr>peer_choice := last_peer\<rparr>) (recent 20250101000000
        [\<lparr>NATBR = Some ''1'', MAKTX = Some ''Mouse'', WERKS = Some ''C1'', MAINS = Some ''7'',
          LABST = Some ''10'', ingest_time = Some 20250531120000, file_name = Some ''a.csv''\<rparr>,
         \<lparr>NATBR = Some ''1'', MAKTX = Some ''Mouse'', WERKS = Some ''C1'', MAINS = Some ''7'',
          LABST = Some ''12'', ingest_time = Some 20250601120000, file_name = Some ''b.csv''\<rparr>,
         \<lparr>NATBR = Some ''2'', MAKTX = Some ''Cable'', WERKS = Some ''C1'', MAINS = Some ''7'',
          LABST = Some ''5'', ingest_time = Some 20250601120000, file_name = Some ''b.csv''\<rparr>])) = [r]
        \<and> LABST r = Some ''12'')"
proof -
  let ?R = "reference first_peer"
  let ?a = "\<lparr>NATBR = Some ''1'', MAKTX = Some ''Mouse'', WERKS = Some ''C1'', MAINS = Some ''7'',
       LABST = Some ''10'', ingest_time = Some (20250531120000::nat), file_name = Some ''a.csv''\<rparr>"
  let ?b = "\<lparr>NATBR = Some ''1'', MAKTX = Some ''Mouse'', WERKS = Some ''C1'', MAINS = Some ''7'',
       LABST = Some ''12'', ingest_time = Some (20250601120000::nat), file_name = Some ''b.csv''\<rparr>"
  let ?c = "\<lparr>NATBR = Some ''2'', MAKTX = Some ''Cable'', WERKS = Some ''C1'', MAINS = Some ''7'',
       LABST = Some ''5'', ingest_time = Some (20250601120000::nat), file_name = Some ''b.csv''\<rparr>"
  let ?F = "recent 20250101000000 [?a, ?b, ?c]"
  have h1: "bronze_produtos two_days = Some [?a, ?b, ?c]"
    by (simp add: ex2_eval empty_db_def)
  have h2: "cast_timestamp ?R CUTOFF = Some 20250101000000"
    by (simp add: lib_eval CUTOFF_def)
  have h3: "\<forall>k. length (peers (partition_of k ?F)) \<le> 1"
    by (simp add: recent_def partition_of_def peers_def)
  note T = engine_choice_matters_on_ties_only [OF h1 h2]
  note free = T [THEN conjunct2, THEN mp, OF h3, THEN spec, of first_peer, THEN spec, of last_peer]
  have sel: "ranked (?R\<lparr>peer_choice := first_peer\<rparr>) ?F = ranked (?R\<lparr>peer_choice := last_peer\<rparr>) ?F"
    by (rule free [THEN conjunct1])
  have stage: "silver_stage (?R\<lparr>peer_choice := first_peer\<rparr>) ''2025-06-02 08:00:00'' two_days
     = silver_stage (?R\<lparr>peer_choice := last_peer\<rparr>) ''2025-06-02 08:00:00'' two_days"
    by (rule free [THEN conjunct2, THEN spec])
  have ok: "fst (silver_stage ?R ''2025-06-02 08:00:00'' two_days) = Success"
    by (simp add: evals)
  have a_in: "?a \<in> set ?F"
    by (simp add: recent_def)
  from T [THEN conjunct1, THEN spec, of last_peer, THEN bspec, OF a_in]
  obtain r where one: "filter (\<lambda>x. NATBR x = NATBR ?a) (ranked (?R\<lparr>peer_choice := last_peer\<rparr>) ?F) = [r]"
    and r: "r \<in> set ?F" "NATBR r = NATBR ?a"
    and top: "\<forall>x \<in> set ?F. NATBR x = NATBR ?a \<longrightarrow> ingest_time x \<le> ingest_time r"
    by blast
  from r top have "r = ?b"
    by (auto simp: recent_def)
  then have price: "LABST r = Some ''12''" by simp
  from one have one': "filter (\<lambda>x. NATBR x = Some ''1'') (ranked (?R\<lparr>peer_choice := last_peer\<rparr>) ?F) = [r]"
    by simp
  have ex: "\<exists>r. filter (\<lambda>x. NATBR x = Some ''1'') (ranked (?R\<lparr>peer_choice := last_peer\<rparr>) ?F) = [r]
        \<and> LABST r = Some ''12''"
    using one' price by (intro exI [of _ r] conjI)
  have nonempty: "bronze_produtos two_days \<noteq> None" using h1 by simp
  show ?thesis
    using nonempty h2 sel stage ok ex by (intro conjI)
qed

text \<open>
  C8 as stated fails: on the raw table \<open>tie\<close> an engine that numbers the first of the
  tied rows first and one that numbers the last of them first select different rows, and the
  query allows both.
\<close>

theorem tie_counterexample:
  "map_option (map s_prod_name)
      (silver_produtos (snd (silver_stage (reference first_peer) ''2025-06-02 08:00:00'' tie)))
     = Some [Some ''Mouse'']
   \<and> map_option (map s_prod_name)
      (silver_produtos (snd (silver_stage (reference last_peer) ''2025-06-02 08:00:00'' tie)))
     = Some [Some ''Trackball'']"
  by (simp add: evals)

subsection \<open>The dimensional splitter\<close>

text \<open>
  C5. When \<open>silver_produtos\<close> exists, the gold stage succeeds and leaves it as it is. The
  fact table is a duplicate-free list whose rows are exactly the triples (id, prod_name, price)
  of the current-state rows, the dimension table a duplicate-free list whose rows are exactly
  the triples (id, id_category, supplier); neither has more rows than the current-state table,
  and the id of every current-state row is the id of a row of each. The id column holds
  integers, never a missing value.
\<close>

theorem gold_tables_are_distinct_projections:
  assumes "silver_produtos st = Some s"
  shows "\<exists>F D st'. gold_stage st = (Success, st')
           \<and> silver_produtos st' = Some s
           \<and> gold_produtos_fat st' = Some F \<and> gold_produtos_dim st' = Some D
           \<and> distinct F
           \<and> set F = (\<lambda>r. \<lparr>f_id = s_id r, f_prod_name = s_prod_name r, f_price = s_price r\<rparr>) ` set s
           \<and> distinct D
           \<and> set D = (\<lambda>r. \<lparr>d_id = s_id r, d_id_category = s_id_category r,
                              d_supplier = s_supplier r\<rparr>) ` set s
           \<and> length F \<le> length s \<and> length D \<le> length s
           \<and> (\<forall>r \<in> set s. s_id r \<in> f_id ` set F \<and> s_id r \<in> d_id ` set D)"
proof -
  let ?F = "remdups (map fat_of s)" and ?D = "remdups (map dim_of s)"
  let ?st' = "st\<lparr>gold_produtos_fat := Some ?F, gold_produtos_dim := Some ?D\<rparr>"
  have run: "gold_stage st = (Success, ?st')"
    using assms by (rule gold_stage_result)
  have fat: "fat_of = (\<lambda>r. \<lparr>f_id = s_id r, f_prod_name = s_prod_name r, f_price = s_price r\<rparr>)"
    by (rule ext) (simp add: fat_of_def)
  have dim: "dim_of = (\<lambda>r. \<lparr>d_id = s_id r, d_id_category = s_id_category r,
      d_supplier = s_supplier r\<rparr>)"
    by (rule ext) (simp add: dim_of_def)
  have setF: "set ?F = (\<lambda>r. \<lparr>f_id = s_id r, f_prod_name = s_prod_name r, f_price = s_price r\<rparr>) ` set s"
    by (simp add: fat)
  have setD: "set ?D = (\<lambda>r. \<lparr>d_id = s_id r, d_id_category = s_id_category r,
      d_supplier = s_supplier r\<rparr>) ` set s"
    by (simp add: dim)
  have lenF: "length ?F \<le> length s"
    using length_remdups_leq [of "map fat_of s"] by simp
  have lenD: "length ?D \<le> length s"
    using length_remdups_leq [of "map dim_of s"] by simp
  have keys: "\<forall>r \<in> set s. s_id r \<in> f_id ` set ?F \<and> s_id r \<in> d_id ` set ?D"
  proof
    fix r assume r: "r \<in> set s"
    have "fat_of r \<in> set ?F" and "dim_of r \<in> set ?D"
      using r by simp_all
    then have "f_id (fat_of r) \<in> f_id ` set ?F" and "d_id (dim_of r) \<in> d_id ` set ?D"
      by blast+
    then show "s_id r \<in> f_id ` set ?F \<and> s_id r \<in> d_id ` set ?D"
      by (simp add: f_id_fat_of d_id_dim_of)
  qed
  show ?thesis
  proof (intro exI conjI)
    show "gold_stage st = (Success, ?st')" by (rule run)
    show "silver_produtos ?st' = Some s" using assms by simp
    show "gold_produtos_fat ?st' = Some ?F" by simp
    show "gold_produtos_dim ?st' = Some ?D" by simp
    show "distinct ?F" by simp
    show "set ?F = (\<lambda>r. \<lparr>f_id = s_id r, f_prod_name = s_prod_name r, f_price = s_price r\<rparr>) ` set s"
      by (rule setF)
    show "distinct ?D" by simp
    show "set ?D = (\<lambda>r. \<lparr>d_id = s_id r, d_id_category = s_id_category r,
        d_supplier = s_supplier r\<rparr>) ` set s"
      by (rule setD)
    show "length ?F \<le> length s" by (rule lenF)
    show "length ?D \<le> length s" by (rule lenD)
    show "\<forall>r \<in> set s. s_id r \<in> f_id ` set ?F \<and> s_id r \<in> d_id ` set ?D" by (rule keys)
  qed
qed

text \<open>
  C5 on the current-state table \<open>catalogue\<close> of three rows: the fact table has two rows,
  since two current-state rows agree on id, name and price, and the dimension table three.
\<close>

theorem gold_tables_are_distinct_projections_witness:
  "silver_produtos catalogue \<noteq> None
   \<and> map_option length (silver_produtos catalogue) = Some 3
   \<and> (\<exists>F D st'. gold_stage catalogue = (Success, st')
      \<and> gold_produtos_fat st' = Some F \<and> gold_produtos_dim st' = Some D
      \<and> set F = {\<lparr>f_id = 1, f_prod_name = Some ''Mouse'', f_price = Some 10\<rparr>,
                  \<lparr>f_id = 2, f_prod_name = Some ''Cable'', f_price = Some 5\<rparr>}
      \<and> length F = 2
      \<and> set D = {\<lparr>d_id = 1, d_id_category = Some ''C1'', d_supplier = 7\<rparr>,
                  \<lparr>d_id = 1, d_id_category = Some ''C2'', d_supplier = 8\<rparr>,
                  \<lparr>d_id = 2, d_id_category = Some ''C1'', d_supplier = 7\<rparr>}
      \<and> length D = 3)"
proof -
  let ?s = "[\<lparr>s_id = 1, s_prod_name = Some ''Mouse'', s_id_category = Some ''C1'', s_supplier = 7,
       s_price = Some (10::int), s_ingest_time = 20250601120000::nat\<rparr>,
      \<lparr>s_id = 1, s_prod_name = Some ''Mouse'', s_id_category = Some ''C2'', s_supplier = 8,
       s_price = Some 10, s_ingest_time = 20250601120000\<rparr>,
      \<lparr>s_id = 2, s_prod_name = Some ''Cable'', s_id_category = Some ''C1'', s_supplier = 7,
       s_price = Some 5, s_ingest_time = 20250601120000\<rparr>]"
  have h: "silver_produtos catalogue = Some ?s"
    by (simp add: catalogue_def empty_db_def)
  from gold_tables_are_distinct_projections [OF h]
  obtain F D st' where run: "gold_stage catalogue = (Success, st')"
    and F: "gold_produtos_fat st' = Some F" and D: "gold_produtos_dim st' = Some D"
    and dF: "distinct F"
    and sF: "set F = (\<lambda>r. \<lparr>f_id = s_id r, f_prod_name = s_prod_name r, f_price = s_price r\<rparr>) ` set ?s"
    and dD: "distinct D"
    and sD: "set D = (\<lambda>r. \<lparr>d_id = s_id r, d_id_category = s_id_category r,
                              d_supplier = s_supplier r\<rparr>) ` set ?s"
    by blast
  have sF': "set F = {\<lparr>f_id = 1, f_prod_name = Some ''Mouse'', f_price = Some 10\<rparr>,
                  \<lparr>f_id = 2, f_prod_name = Some ''Cable'', f_price = Some 5\<rparr>}"
    unfolding sF by simp
  have sD': "set D = {\<lparr>d_id = 1, d_id_category = Some ''C1'', d_supplier = 7\<rparr>,
                  \<lparr>d_id = 1, d_id_category = Some ''C2'', d_supplier = 8\<rparr>,
                  \<lparr>d_id = 2, d_id_category = Some ''C1'', d_supplier = 7\<rparr>}"
    unfolding sD by simp
  have "card (set F) = 2" unfolding sF' by simp
  then have lF: "length F = 2" using dF by (simp add: distinct_card)
  have "card (set D) = 3" unfolding sD' by simp
  then have lD: "length D = 3" using dD by (simp add: distinct_card)
  have "silver_produtos catalogue \<noteq> None" "map_option length (silver_produtos catalogue) = Some 3"
    using h by simp_all
  moreover have "\<exists>F D st'. gold_stage catalogue = (Success, st')
      \<and> gold_produtos_fat st' = Some F \<and> gold_produtos_dim st' = Some D
      \<and> set F = {\<lparr>f_id = 1, f_prod_name = Some ''Mouse'', f_price = Some 10\<rparr>,
                  \<lparr>f_id = 2, f_prod_name = Some ''Cable'', f_price = Some 5\<rparr>}
      \<and> length F = 2
      \<and> set D = {\<lparr>d_id = 1, d_id_category = Some ''C1'', d_supplier = 7\<rparr>,
                  \<lparr>d_id = 1, d_id_category = Some ''C2'', d_supplier = 8\<rparr>,
                  \<lparr>d_id = 2, d_id_category = Some ''C1'', d_supplier = 7\<rparr>}
      \<and> length D = 3"
    using run F D sF' lF sD' lD by (intro exI [of _ F] exI [of _ D] exI [of _ st'] conjI)
  ultimately show ?thesis by (intro conjI)
qed

subsection \<open>The raw layer loader\<close>







text \<open>
  C7, as amended. A file whose header has a number of columns other than five, none of them
  named \<open>ingest_time\<close> or \<open>file_name\<close>, is an error for that file only: it is logged
  as skipped and the tables stay as they were. The names of the columns are not compared
  with the schema.
\<close>

theorem wrong_column_count_is_skipped:
  assumes "read_csv f = Some df"
    and "''ingest_time'' \<notin> set (columns df)" "''file_name'' \<notin> set (columns df)"
    and "length (columns df) \<noteq> 5"
  shows "file_rows L now f = None
         \<and> ingest_file L now f st = st\<lparr>errors := errors st @ [File_skipped (fname f)]\<rparr>"
proof -
  have none: "file_rows L now f = None"
    using assms by (simp add: file_rows_fresh)
  then show ?thesis
    by (simp add: ingest_file_def log_error_def)
qed

text \<open>
  The amended claim on the file that lacks the price column.
\<close>

theorem wrong_column_count_is_skipped_witness:
  "read_csv missing_price_csv = Some \<lparr>columns = [''NATBR'', ''MAKTX'', ''WERKS'', ''MAINS''],
      rows = [[Some ''3'', Some ''Screen'', Some ''C2'', Some ''8'']]\<rparr>
   \<and> file_rows (reference first_peer) ''2025-06-01 12:00:00'' missing_price_csv = None
   \<and> ingest_file (reference first_peer) ''2025-06-01 12:00:00'' missing_price_csv yesterday
       = yesterday\<lparr>errors := [File_skipped ''a.csv'']\<rparr>"
proof -
  let ?df = "\<lparr>columns = [''NATBR'', ''MAKTX'', ''WERKS'', ''MAINS''],
      rows = [[Some ''3'', Some ''Screen'', Some ''C2'', Some ''8'']]\<rparr>"
  have h1: "read_csv missing_price_csv = Some ?df" by (simp add: ex_eval)
  have h2: "''ingest_time'' \<notin> set (columns ?df)" by simp
  have h3: "''file_name'' \<notin> set (columns ?df)" by simp
  have h4: "length (columns ?df) \<noteq> 5" by simp
  from wrong_column_count_is_skipped [OF h1 h2 h3 h4, of "reference first_peer"
      "''2025-06-01 12:00:00''" yesterday]
  show ?thesis using h1 by (simp add: ex_eval)
qed

text \<open>
  C7 as stated fails: the INSERT of line 82 matches columns by position, so the rows of a file
  with five columns under other names are appended and nothing is logged.
\<close>

theorem renamed_columns_counterexample:
  "read_csv renamed_csv = Some \<lparr>columns = [''id'', ''name'', ''category'', ''supplier'', ''price''],
      rows = [[Some ''4'', Some ''Lamp'', Some ''C3'', Some ''9'', Some ''30'']]\<rparr>
   \<and> ingest_file (reference first_peer) ''2025-06-01 12:00:00'' renamed_csv
       \<lparr>bronze_produtos = Some [], silver_produtos = None, gold_produtos_fat = None,
        gold_produtos_dim = None, errors = []\<rparr>
     = \<lparr>bronze_produtos = Some
          [\<lparr>NATBR = Some ''4'', MAKTX = Some ''Lamp'', WERKS = Some ''C3'', MAINS = Some ''9'',
            LABST = Some ''30'', ingest_time = Some 20250601120000, file_name = Some ''c.csv''\<rparr>],
        silver_produtos = None, gold_produtos_fat = None, gold_produtos_dim = None, errors = []\<rparr>"
  by (simp add: evals)

text \<open>
  C9, as amended. When the directory holds no CSV file, or no row of the raw table passes the
  filter, the run succeeds and the current-state, fact and dimension tables are empty. The raw
  table holds the rows of the files of the run: with no CSV file it is empty and nothing is
  logged, but when rows were loaded and none passes the filter it has gained those rows. The
  hypothesis on \<open>cast_timestamp\<close> says that the engine reads the literal of the filter
  as a timestamp, as DuckDB does.
\<close>

theorem empty_input_gives_empty_tables:
  assumes "cast_timestamp L CUTOFF = Some c"
    and "csv_files es = [] \<or> recent c (loaded L clock 0 (csv_files es)) = []"
  shows "\<exists>st'. pipeline L clock (Some es) st = (Success, st')
           \<and> bronze_produtos st' = Some (loaded L clock 0 (csv_files es))
           \<and> (csv_files es = [] \<longrightarrow> bronze_produtos st' = Some [] \<and> errors st' = errors st)
           \<and> silver_produtos st' = Some []
           \<and> gold_produtos_fat st' = Some [] \<and> gold_produtos_dim st' = Some []"
proof -
  let ?b = "loaded L clock 0 (csv_files es)"
  have none: "recent c ?b = []"
    using assms(2) by (auto simp: recent_def)
  let ?in = "st\<lparr>bronze_produtos := Some ?b, errors := errors st @ skipped L clock 0 (csv_files es)\<rparr>"
  let ?out = "?in\<lparr>silver_produtos := Some [], gold_produtos_fat := Some [],
      gold_produtos_dim := Some []\<rparr>"
  have "ranked L (recent c ?b) = []"
    by (simp add: none ranked_def)
  then have "silver_stage L (clock (length (csv_files es))) ?in
      = (Success, ?in\<lparr>silver_produtos := Some []\<rparr>)"
    using assms(1) by (simp add: silver_stage_def)
  then have "pipeline L clock (Some es) st = (Success, ?out)"
    by (simp add: pipeline_run transform_def gold_stage_def Let_def)
  moreover have "bronze_produtos ?out = Some ?b" "silver_produtos ?out = Some []"
    "gold_produtos_fat ?out = Some []" "gold_produtos_dim ?out = Some []"
    by simp_all
  moreover have "csv_files es = [] \<longrightarrow> bronze_produtos ?out = Some [] \<and> errors ?out = errors st"
    by simp
  ultimately show ?thesis by blast
qed

text \<open>
  C9 on a directory without CSV files, and on a run whose clock reads 2024, before the cut-off.
\<close>

theorem empty_input_gives_empty_tables_witness:
  "cast_timestamp (reference first_peer) CUTOFF = Some 20250101000000
   \<and> csv_files [readme] = []
   \<and> pipeline (reference first_peer) at_noon (Some [readme]) yesterday
       = (Success, \<lparr>bronze_produtos = Some [], silver_produtos = Some [],
            gold_produtos_fat = Some [], gold_produtos_dim = Some [], errors = []\<rparr>)
   \<and> recent 20250101000000 (loaded (reference first_peer) last_year 0 (csv_files [good_csv])) = []
   \<and> fst (pipeline (reference first_peer) last_year (Some [good_csv]) yesterday) = Success
   \<and> silver_produtos (snd (pipeline (reference first_peer) last_year (Some [good_csv]) yesterday))
       = Some []"
proof -
  let ?R = "reference first_peer"
  have h1: "cast_timestamp ?R CUTOFF = Some 20250101000000"
    by (simp add: lib_eval CUTOFF_def)
  have none: "csv_files [readme] = []"
    by (simp add: csv_files_def endswith_def EXT_def ex_eval)
  then have h2: "csv_files [readme] = []
      \<or> recent 20250101000000 (loaded ?R at_noon 0 (csv_files [readme])) = []"
    by simp
  from empty_input_gives_empty_tables [OF h1 h2, of yesterday]
  obtain st' where run: "pipeline ?R at_noon (Some [readme]) yesterday = (Success, st')"
    and tabs: "bronze_produtos st' = Some []" "errors st' = errors yesterday"
      "silver_produtos st' = Some []" "gold_produtos_fat st' = Some []"
      "gold_produtos_dim st' = Some []"
    using none by auto
  have "st' = \<lparr>bronze_produtos = Some [], silver_produtos = Some [],
            gold_produtos_fat = Some [], gold_produtos_dim = Some [], errors = []\<rparr>"
    using tabs by (cases st') (simp add: ex_eval)
  with run have a: "pipeline ?R at_noon (Some [readme]) yesterday
       = (Success, \<lparr>bronze_produtos = Some [], silver_produtos = Some [],
            gold_produtos_fat = Some [], gold_produtos_dim = Some [], errors = []\<rparr>)"
    by simp
  have old: "recent 20250101000000 (loaded ?R last_year 0 (csv_files [good_csv])) = []"
    by (simp add: lib_eval ex_eval ex2_eval csv_files_def endswith_def EXT_def file_rows_def
        with_metadata_def set_column_def insert_bronze_def recent_def)
  then have h3: "csv_files [good_csv] = []
      \<or> recent 20250101000000 (loaded ?R last_year 0 (csv_files [good_csv])) = []"
    by simp
  from empty_input_gives_empty_tables [OF h1 h3, of yesterday]
  obtain st'' where "pipeline ?R last_year (Some [good_csv]) yesterday = (Success, st'')"
    "silver_produtos st'' = Some []"
    by blast
  with h1 none a old show ?thesis by simp
qed

text \<open>
  C9 as stated fails in its second case: in a run whose clock reads 2024 the two rows of
  \<open>good_csv\<close> are appended to the raw table, and none of them passes the filter.
\<close>

theorem filtered_out_rows_counterexample:
  "fst (pipeline (reference first_peer) last_year (Some [good_csv]) empty_db) = Success
   \<and> silver_produtos (snd (pipeline (reference first_peer) last_year (Some [good_csv]) empty_db))
       = Some []
   \<and> map_option (map NATBR)
        (bronze_produtos (snd (pipeline (reference first_peer) last_year (Some [good_csv]) empty_db)))
       = Some [Some ''1'', Some ''2'']
   \<and> map_option (map ingest_time)
        (bronze_produtos (snd (pipeline (reference first_peer) last_year (Some [good_csv]) empty_db)))
       = Some [Some 20241231235959, Some 20241231235959]"
  by (simp add: evals)

text \<open>
  C10, as amended. For a file whose header has no column named \<open>ingest_time\<close> or
  \<open>file_name\<close>, every row it adds carries the same ingestion timestamp, the clock reading
  taken once for the file, and the name of the file. So two rows of the file in one partition
  are both among the rows with the greatest timestamp or both not: the order of the query
  does not decide between them.
\<close>

theorem one_timestamp_per_file:
  assumes "read_csv f = Some df"
    and "''ingest_time'' \<notin> set (columns df)" "''file_name'' \<notin> set (columns df)"
    and "file_rows L now f = Some new"
  shows "(\<forall>r \<in> set new. ingest_time r = cast_timestamp L now \<and> cast_timestamp L now \<noteq> None
            \<and> file_name r = Some (fname f))
         \<and> (\<forall>r1 \<in> set new. \<forall>r2 \<in> set new. \<forall>part. r1 \<in> set part \<and> r2 \<in> set part \<longrightarrow>
               (r1 \<in> set (peers part) \<longleftrightarrow> r2 \<in> set (peers part)))"
proof -
  have conv: "convert_all (bronze_of_cells L)
      (map (\<lambda>r. r @ [Some now, Some (fname f)]) (rows df)) = Some new"
    using assms by (simp add: file_rows_fresh split: if_splits)
  have stamp: "ingest_time r = cast_timestamp L now \<and> cast_timestamp L now \<noteq> None
      \<and> file_name r = Some (fname f)" if "r \<in> set new" for r
  proof -
    from convert_all_Some_all [OF conv that] obtain cells
      where "cells \<in> set (rows df)"
        and "bronze_of_cells L (cells @ [Some now, Some (fname f)]) = Some r"
      by auto
    then show ?thesis
      using bronze_of_cells_metadata by blast
  qed
  have tie: "r1 \<in> set (peers part) \<longleftrightarrow> r2 \<in> set (peers part)"
    if "r1 \<in> set new" "r2 \<in> set new" "r1 \<in> set part \<and> r2 \<in> set part" for r1 r2 part
  proof -
    have "ingest_time r1 = ingest_time r2"
      using stamp [OF that(1)] stamp [OF that(2)] by simp
    with that(3) show ?thesis
      by (simp add: peers_member)
  qed
  show ?thesis
  proof (intro conjI ballI allI impI)
    fix r assume "r \<in> set new"
    from stamp [OF this]
    show "ingest_time r = cast_timestamp L now" "cast_timestamp L now \<noteq> None"
      "file_name r = Some (fname f)"
      by simp_all
  next
    fix r1 r2 part
    assume "r1 \<in> set new" "r2 \<in> set new" "r1 \<in> set part \<and> r2 \<in> set part"
    then show "r1 \<in> set (peers part) \<longleftrightarrow> r2 \<in> set (peers part)"
      by (rule tie)
  qed
qed

text \<open>
  The amended claim on \<open>good_csv\<close>.
\<close>

theorem one_timestamp_per_file_witness:
  "read_csv good_csv \<noteq> None
   \<and> (\<exists>ra rb. file_rows (reference first_peer) ''2025-06-01 12:00:00'' good_csv = Some [ra, rb]
        \<and> ingest_time ra = Some 20250601120000 \<and> ingest_time rb = Some 20250601120000
        \<and> (ra \<in> set (peers [ra, rb])) = (rb \<in> set (peers [ra, rb])))"
proof -
  let ?R = "reference first_peer"
  let ?df = "\<lparr>columns = five, rows =
     [[Some ''1'', Some ''Mouse'', Some ''C1'', Some ''7'', Some ''10''],
      [Some ''2'', Some ''Cable'', Some ''C1'', Some ''7'', Some ''5'']]\<rparr>"
  have h1: "read_csv good_csv = Some ?df" by (simp add: ex_eval)
  have h2: "''ingest_time'' \<notin> set (columns ?df)" by (simp add: five_def)
  have h3: "''file_name'' \<notin> set (columns ?df)" by (simp add: five_def)
  let ?ra = "\<lparr>NATBR = Some ''1'', MAKTX = Some ''Mouse'', WERKS = Some ''C1'', MAINS = Some ''7'',
      LABST = Some ''10'', ingest_time = Some (20250601120000::nat), file_name = Some ''b.csv''\<rparr>"
  let ?rb = "\<lparr>NATBR = Some ''2'', MAKTX = Some ''Cable'', WERKS = Some ''C1'', MAINS = Some ''7'',
      LABST = Some ''5'', ingest_time = Some (20250601120000::nat), file_name = Some ''b.csv''\<rparr>"
  have h4: "file_rows ?R ''2025-06-01 12:00:00'' good_csv = Some [?ra, ?rb]"
    by (simp add: evals)
  have now: "cast_timestamp ?R ''2025-06-01 12:00:00'' = Some 20250601120000"
    by (simp add: lib_eval)
  note T = one_timestamp_per_file [OF h1 h2 h3 h4]
  have ra: "?ra \<in> set [?ra, ?rb]" and rb: "?rb \<in> set [?ra, ?rb]"
    by simp_all
  note stamp = T [THEN conjunct1, THEN bspec]
  have stamps: "ingest_time ?ra = Some 20250601120000" "ingest_time ?rb = Some 20250601120000"
    using stamp [OF ra] stamp [OF rb] by (simp_all add: now)
  note tie = T [THEN conjunct2, THEN bspec, OF ra, THEN bspec, OF rb, THEN spec, of "[?ra, ?rb]"]
  have tied: "(?ra \<in> set (peers [?ra, ?rb])) = (?rb \<in> set (peers [?ra, ?rb]))"
    by (rule tie [THEN mp]) (rule conjI [OF ra rb])
  have "\<exists>ra rb. file_rows ?R ''2025-06-01 12:00:00'' good_csv = Some [ra, rb]
        \<and> ingest_time ra = Some 20250601120000 \<and> ingest_time rb = Some 20250601120000
        \<and> (ra \<in> set (peers [ra, rb])) = (rb \<in> set (peers [ra, rb]))"
    using h4 stamps tied by (intro exI [of _ ?ra] exI [of _ ?rb] conjI)
  with h1 show ?thesis by simp
qed

text \<open>
  C10 as stated fails for a file whose header has a column \<open>ingest_time\<close> that is not
  the sixth: line 78 overwrites that column where it stands, and the INSERT takes the sixth
  column of the frame for the timestamp. The two rows of \<open>shifted_csv\<close> get the same key
  and different timestamps.
\<close>

theorem shifted_timestamp_counterexample:
  "file_rows (reference first_peer) ''2025-06-01 12:00:00'' shifted_csv =
     Some [\<lparr>NATBR = Some ''2025-06-01 12:00:00'', MAKTX = Some ''Desk'', WERKS = Some ''C4'',
            MAINS = Some ''9'', LABST = Some ''90'', ingest_time = Some 20250301100000,
            file_name = Some ''d.csv''\<rparr>,
           \<lparr>NATBR = Some ''2025-06-01 12:00:00'', MAKTX = Some ''Desk'', WERKS = Some ''C4'',
            MAINS = Some ''9'', LABST = Some ''95'', ingest_time = Some 20250302100000,
            file_name = Some ''d.csv''\<rparr>]"
  by (simp add: evals)

end
